theory Spec2Isabelle
  imports Complex_Main "HOL-Library.Sublist"
begin

section \<open>Conventions of the embedding\<close>

text \<open>
  The model follows \<^verbatim>\<open>wake_t/physics_models/plasma_wakefields/qs_rz_baxevanis/solver.py\<close>
  and \<^verbatim>\<open>wake_t/particles/push/boris_pusher.py\<close>.

  \<^item> A one-dimensional numpy array of float64 is a \<open>real list\<close>; arithmetic is exact real
    arithmetic, so rounding, infinities and NaN are outside the model, except for the
    binary64 reading of the closing lines of \<open>calculate_ai_bi\<close>. Division and
    \<open>ln\<close> keep HOL's total meaning; the theorems describe the code where its divisors
    are not zero and the radii are positive, which the solver requires of its caller.
  \<^item> The arrays that describe one plasma column (\<open>r\<close>, \<open>pr\<close>, \<open>q\<close> and the per-particle
    fields and sources) have one common length; the theorems state it as a hypothesis.
  \<^item> In-place array writes \<open>x[i] = v\<close> are list updates \<open>x[i := v]\<close> threaded through the
    loop; a \<open>for\<close> loop over a range or over the sorted indices is a \<open>fold\<close>.
  \<^item> A raised exception is the left injection of a sum: calling \<open>beam_source\<close> when it is
    \<open>None\<close>, indexing an empty array (\<open>r[-1]\<close>, \<open>r[0]\<close>, \<open>xi_arr[0]\<close>, \<open>idx[0]\<close>), and
    \<open>np.gradient\<close> on a mesh with fewer than three points along the axis.
    With \<open>n_r\<close>, \<open>ppc\<close> or \<open>n_xi\<close> equal to zero the driver fails before its loop; the model
    reports it at the first empty array.
  \<^item> The constants of \<open>scipy.constants\<close>, the skin depth, the beam interpolator and the
    deposition routines are parameters. The numpy functions \<open>argsort\<close>, \<open>linspace\<close> and
    \<open>gradient\<close> are modelled as numpy documents them.
\<close>

datatype error = TypeError | IndexError | ValueError

record scipy_constants =
  ct_c :: real
  ct_e :: real
  ct_m_e :: real

section \<open>Field solver kernels (solver.py)\<close>

type_synonym array = "real list"

text \<open>\<open>np.argsort(r)\<close>: the indices of \<open>r\<close> in ascending order of radius. Equal radii are
  kept in index order here; numpy does not promise an order among ties.\<close>

definition argsort :: "array \<Rightarrow> nat list" where
  "argsort r = sort_key (\<lambda>i. r ! i) [0..<length r]"

definition zeros :: "nat \<Rightarrow> array" where
  "zeros n = replicate n 0"

subsection \<open>\<open>calculate_psi_and_derivatives_at_particles\<close> (lines 417 to 480)\<close>

text \<open>Body of the first sorted loop (lines 444 to 464).\<close>

definition psi_at_particles_step ::
  "array \<Rightarrow> array \<Rightarrow> nat \<Rightarrow> real \<times> real \<times> array \<times> array \<Rightarrow> real \<times> real \<times> array \<times> array" where
  "psi_at_particles_step r q i s =
    (case s of (sum_1, sum_2, psi, dr_psi) \<Rightarrow>
      let r_i = r ! i; q_i = q ! i;
          sum_1_new = sum_1 + q_i;
          sum_2_new = sum_2 + q_i * ln r_i;
          sum_1_avg = 0.5 * (sum_1 + sum_1_new);
          sum_2_avg = 0.5 * (sum_2 + sum_2_new)
      in (sum_1_new, sum_2_new,
          psi[i := sum_1_avg * ln r_i - sum_2_avg - 0.25 * r_i\<^sup>2],
          dr_psi[i := sum_1_avg / r_i - 0.5 * r_i]))"

text \<open>Body of the second sorted loop (lines 469 to 478).\<close>

definition dxi_psi_at_particles_step ::
  "array \<Rightarrow> array \<Rightarrow> array \<Rightarrow> array \<Rightarrow> nat \<Rightarrow> real \<times> array \<Rightarrow> real \<times> array" where
  "dxi_psi_at_particles_step r pr q psi i s =
    (case s of (sum_3, dxi_psi) \<Rightarrow>
      let r_i = r ! i; pr_i = pr ! i; q_i = q ! i; psi_i = psi ! i;
          sum_3_new = sum_3 + (q_i * pr_i) / (r_i * (1 + psi_i))
      in (sum_3_new, dxi_psi[i := - 0.5 * (sum_3 + sum_3_new)]))"

text \<open>The state after the first loop: the total sums and the uncalibrated \<open>psi\<close>, \<open>dr_psi\<close>.\<close>

definition psi_at_particles_sums :: "array \<Rightarrow> array \<Rightarrow> real \<times> real \<times> array \<times> array" where
  "psi_at_particles_sums r q =
    fold (psi_at_particles_step r q) (argsort r) (0, 0, zeros (length r), zeros (length r))"

text \<open>\<open>r[-1]\<close> on an empty array raises, after both loops have run zero times.\<close>

definition calculate_psi_and_derivatives_at_particles ::
  "array \<Rightarrow> array \<Rightarrow> array \<Rightarrow> error + (array \<times> array \<times> array)" where
  "calculate_psi_and_derivatives_at_particles r pr q =
    (let n_part = length r; idx = argsort r
     in case psi_at_particles_sums r q of (sum_1, sum_2, psi, dr_psi) \<Rightarrow>
        if r = [] then Inl IndexError
        else
          let r_N = last r;
              psi = map (\<lambda>p. p - (sum_1 * ln r_N - sum_2 - 0.25 * r_N\<^sup>2)) psi
          in case fold (dxi_psi_at_particles_step r pr q psi) idx (0, zeros n_part) of
               (sum_3, dxi_psi) \<Rightarrow> Inr (psi, dr_psi, map (\<lambda>d. d + sum_3) dxi_psi))"

text \<open>The quantity subtracted from \<open>psi\<close> on line 466.\<close>

definition psi_calibration_at_particles :: "array \<Rightarrow> array \<Rightarrow> real" where
  "psi_calibration_at_particles r q =
    (case psi_at_particles_sums r q of (sum_1, sum_2, psi, dr_psi) \<Rightarrow>
      let r_N = last r in sum_1 * ln r_N - sum_2 - 0.25 * r_N\<^sup>2)"

subsection \<open>\<open>calculate_psi_and_derivatives\<close> (lines 483 to 561)\<close>

text \<open>Body of the loop of lines 505 to 515.\<close>

definition psi_sums_step ::
  "array \<Rightarrow> array \<Rightarrow> nat \<Rightarrow> real \<times> real \<times> array \<times> array \<times> array
    \<Rightarrow> real \<times> real \<times> array \<times> array \<times> array" where
  "psi_sums_step r q i s =
    (case s of (sum_1, sum_2, sum_1_arr, sum_2_arr, psi_part) \<Rightarrow>
      let r_i = r ! i; q_i = q ! i;
          sum_1 = sum_1 + q_i;
          sum_2 = sum_2 + q_i * ln r_i
      in (sum_1, sum_2, sum_1_arr[i := sum_1], sum_2_arr[i := sum_2],
          psi_part[i := sum_1 * ln r_i - sum_2 - 0.25 * r_i\<^sup>2]))"

text \<open>Body of the loop of lines 520 to 528.\<close>

definition sum_3_step ::
  "array \<Rightarrow> array \<Rightarrow> array \<Rightarrow> array \<Rightarrow> nat \<Rightarrow> real \<times> array \<Rightarrow> real \<times> array" where
  "sum_3_step r pr q psi_part i s =
    (case s of (sum_3, sum_3_arr) \<Rightarrow>
      let r_i = r ! i; pr_i = pr ! i; q_i = q ! i; psi_i = psi_part ! i;
          sum_3 = sum_3 + (q_i * pr_i) / (r_i * (1 + psi_i))
      in (sum_3, sum_3_arr[i := sum_3]))"

text \<open>The inner scan of lines 541 to 547 (and 652 to 658): the remaining sorted indices,
  the position \<open>i_sort\<close> of the first of them, and the current value of \<open>i_last\<close>.
  Each iteration sets \<open>i_last = i_sort\<close>, and on \<open>r_i >= r_j\<close> decrements it and breaks.\<close>

fun find_i_last :: "array \<Rightarrow> real \<Rightarrow> nat list \<Rightarrow> nat \<Rightarrow> int \<Rightarrow> int" where
  "find_i_last r r_j [] i_sort i_last = i_last"
| "find_i_last r r_j (i # idx) i_sort i_last =
    (if r ! i \<ge> r_j then int i_sort - 1
     else find_i_last r r_j idx (Suc i_sort) (int i_sort))"

text \<open>The loop over the probe radii (lines 538 to 558); \<open>i_last\<close> is carried from one probe
  radius to the next, as the variable of the source is. The three values written at
  position \<open>j\<close> are returned as a triple.\<close>

fun psi_probe_loop ::
  "array \<Rightarrow> nat list \<Rightarrow> array \<Rightarrow> array \<Rightarrow> array \<Rightarrow> array \<Rightarrow> int \<Rightarrow> (real \<times> real \<times> real) list" where
  "psi_probe_loop r idx sum_1_arr sum_2_arr sum_3_arr [] i_last = []"
| "psi_probe_loop r idx sum_1_arr sum_2_arr sum_3_arr (r_j # r_arr) i_last =
    (let i_last = find_i_last r r_j idx 0 i_last;
         v = (if i_last = - 1 then (- 0.25 * r_j\<^sup>2, - 0.5 * r_j, 0)
              else let i_p = idx ! nat i_last
                   in (sum_1_arr ! i_p * ln r_j - sum_2_arr ! i_p - 0.25 * r_j\<^sup>2,
                       sum_1_arr ! i_p / r_j - 0.5 * r_j,
                       - sum_3_arr ! i_p))
     in v # psi_probe_loop r idx sum_1_arr sum_2_arr sum_3_arr r_arr i_last)"

definition psi_sums :: "array \<Rightarrow> array \<Rightarrow> real \<times> real \<times> array \<times> array \<times> array" where
  "psi_sums r q =
    fold (psi_sums_step r q) (argsort r)
      (0, 0, zeros (length r), zeros (length r), zeros (length r))"

definition calculate_psi_and_derivatives ::
  "array \<Rightarrow> array \<Rightarrow> array \<Rightarrow> array \<Rightarrow> error + (array \<times> array \<times> array)" where
  "calculate_psi_and_derivatives r_arr r pr q =
    (let n_part = length r; idx = argsort r
     in case psi_sums r q of (sum_1, sum_2, sum_1_arr, sum_2_arr, psi_part) \<Rightarrow>
        if r = [] then Inl IndexError
        else
          let r_N = last r;
              psi_part = map (\<lambda>p. p + - (sum_1 * ln r_N - sum_2 - 0.25 * r_N\<^sup>2)) psi_part
          in case fold (sum_3_step r pr q psi_part) idx (0, zeros n_part) of
               (sum_3, sum_3_arr) \<Rightarrow>
                 let vs = psi_probe_loop r idx sum_1_arr sum_2_arr sum_3_arr r_arr 0
                 in Inr (map (\<lambda>v. fst v - (sum_1 * ln r_N - sum_2 - 0.25 * r_N\<^sup>2)) vs,
                         map (\<lambda>v. fst (snd v)) vs,
                         map (\<lambda>v. snd (snd v) + sum_3) vs))"

text \<open>The quantity subtracted on lines 517 and 559.\<close>

definition psi_calibration :: "array \<Rightarrow> array \<Rightarrow> real" where
  "psi_calibration r q =
    (case psi_sums r q of (sum_1, sum_2, sum_1_arr, sum_2_arr, psi_part) \<Rightarrow>
      let r_N = last r in sum_1 * ln r_N - sum_2 - 0.25 * r_N\<^sup>2)"

subsection \<open>\<open>calculate_ai_bi\<close> (lines 669 to 779)\<close>

text \<open>Body of the sorted loop (lines 724 to 771): the running \<open>(K, U, T, P)\<close> of the previous
  shell and the four arrays.\<close>

definition ai_bi_step ::
  "array \<Rightarrow> array \<Rightarrow> array \<Rightarrow> array \<Rightarrow> array \<Rightarrow> array \<Rightarrow> array \<Rightarrow> array \<Rightarrow> array \<Rightarrow> nat
    \<Rightarrow> real \<times> real \<times> real \<times> real \<times> array \<times> array \<times> array \<times> array
    \<Rightarrow> real \<times> real \<times> real \<times> real \<times> array \<times> array \<times> array \<times> array" where
  "ai_bi_step r pr q gamma psi dr_psi dxi_psi b_theta_0 nabla_a i s =
    (case s of (K_im1, U_im1, T_im1, P_im1, K, U, T, P) \<Rightarrow>
      let r_i = r ! i; pr_i = pr ! i; q_i = q ! i; gamma_i = gamma ! i; psi_i = psi ! i;
          dr_psi_i = dr_psi ! i; dxi_psi_i = dxi_psi ! i;
          b_theta_0_i = b_theta_0 ! i; nabla_a_i = nabla_a ! i;
          a = 1 + psi_i;
          a2 = a * a;
          a3 = a2 * a;
          b = 1 / (r_i * a);
          c = 1 / (r_i * a2);
          pr_i2 = pr_i * pr_i;
          A_i = q_i * b;
          B_i = q_i * (- (gamma_i * dr_psi_i) * c
                       + (pr_i2 * dr_psi_i) / (r_i * a3)
                       + (pr_i * dxi_psi_i) * c
                       + pr_i2 / (r_i * r_i * a2)
                       + b_theta_0_i * b
                       + nabla_a_i * c * 0.5);
          C_i = q_i * (pr_i2 * c - (gamma_i / a - 1) / r_i);
          l_i = 1 + 0.5 * A_i * r_i;
          m_i = 0.5 * A_i / r_i;
          n_i = - 0.5 * A_i * r_i ^ 3;
          o_i = 1 - 0.5 * A_i * r_i;
          K_i = l_i * K_im1 + m_i * U_im1;
          U_i = n_i * K_im1 + o_i * U_im1;
          T_i = l_i * T_im1 + m_i * P_im1 + 0.5 * B_i + 0.25 * A_i * C_i;
          P_i = n_i * T_im1 + o_i * P_im1
                + r_i * (C_i - 0.5 * B_i * r_i - 0.25 * A_i * C_i * r_i)
      in (K_i, U_i, T_i, P_i, K[i := K_i], U[i := U_i], T[i := T_i], P[i := P_i]))"

text \<open>The forward sweep from \<open>K_0 = 1\<close>, \<open>U_0 = T_0 = P_0 = 0\<close>.\<close>

definition ai_bi_sweep ::
  "array \<Rightarrow> array \<Rightarrow> array \<Rightarrow> array \<Rightarrow> array \<Rightarrow> array \<Rightarrow> array \<Rightarrow> array \<Rightarrow> array
    \<Rightarrow> real \<times> real \<times> real \<times> real \<times> array \<times> array \<times> array \<times> array" where
  "ai_bi_sweep r pr q gamma psi dr_psi dxi_psi b_theta_0 nabla_a =
    (let n_part = length r
     in fold (ai_bi_step r pr q gamma psi dr_psi dxi_psi b_theta_0 nabla_a) (argsort r)
          (1, 0, 0, 0, zeros n_part, zeros n_part, zeros n_part, zeros n_part))"

definition calculate_ai_bi ::
  "array \<Rightarrow> array \<Rightarrow> array \<Rightarrow> array \<Rightarrow> array \<Rightarrow> array \<Rightarrow> array \<Rightarrow> array \<Rightarrow> array
    \<Rightarrow> array \<times> array \<times> real \<times> nat list" where
  "calculate_ai_bi r pr q gamma psi dr_psi dxi_psi b_theta_0 nabla_a =
    (case ai_bi_sweep r pr q gamma psi dr_psi dxi_psi b_theta_0 nabla_a of
      (K_im1, U_im1, T_im1, P_im1, K, U, T, P) \<Rightarrow>
        let a_0 = - T_im1 / K_im1;
            a_i = map2 (\<lambda>k t. k * a_0 + t) K T;
            b_i = map2 (\<lambda>u p. u * a_0 + p) U P
        in (a_i, b_i, a_0, argsort r))"

subsection \<open>The closing lines of \<open>calculate_ai_bi\<close> in binary64 (lines 774 to 778)\<close>

text \<open>The program computes in float64. Each of \<open>+\<close>, \<open>*\<close> and \<open>/\<close> of IEEE 754 binary64 returns
  the exact result rounded to the nearest number with a 53-bit significand, a tie going to
  the even significand. \<open>float64_round\<close> is this rounding on the normal range: with
  \<open>e = floor (log2 |x|)\<close> the spacing of the binary64 numbers around \<open>x\<close> is \<open>2 ^ (e - 52)\<close>.
  Overflow, subnormal results, infinities and NaN are outside it. Unary minus is exact.\<close>

definition round_half_even :: "real \<Rightarrow> int" where
  "round_half_even y =
     (let f = \<lfloor>y\<rfloor>; d = y - of_int f in
      if d < 1 / 2 then f
      else if 1 / 2 < d then f + 1
      else if even f then f else f + 1)"

definition float64_round :: "real \<Rightarrow> real" where
  "float64_round x =
     (if x = 0 then 0
      else let e = \<lfloor>log 2 \<bar>x\<bar>\<rfloor> in
        of_int (round_half_even (x / 2 powr of_int (e - 52))) * 2 powr of_int (e - 52))"

text \<open>Lines 774 to 778 with every operation rounded, from the final \<open>(K_N, T_N)\<close> and the
  arrays \<open>K\<close>, \<open>U\<close>, \<open>T\<close>, \<open>P\<close> of the sweep: \<open>a_0 = - T_im1 / K_im1\<close> is one division,
  \<open>K * a_0 + T\<close> and \<open>U * a_0 + P\<close> are a product and then a sum for every element.\<close>

definition calculate_ai_bi_closing_float64 ::
  "real \<Rightarrow> real \<Rightarrow> array \<Rightarrow> array \<Rightarrow> array \<Rightarrow> array \<Rightarrow> array \<times> array \<times> real" where
  "calculate_ai_bi_closing_float64 K_im1 T_im1 K U T P =
     (let a_0 = float64_round (- T_im1 / K_im1);
          a_i = map2 (\<lambda>k t. float64_round (float64_round (k * a_0) + t)) K T;
          b_i = map2 (\<lambda>u p. float64_round (float64_round (u * a_0) + p)) U P
      in (a_i, b_i, a_0))"

subsection \<open>\<open>calculate_b_theta_at_particles\<close> (lines 564 to 613)\<close>

definition b_theta_avg_step ::
  "array \<Rightarrow> array \<Rightarrow> nat \<Rightarrow> real \<times> real \<times> array \<times> array \<Rightarrow> real \<times> real \<times> array \<times> array" where
  "b_theta_avg_step a_i b_i i s =
    (case s of (a_im1, b_im1, a_i_avg, b_i_avg) \<Rightarrow>
      (a_i ! i, b_i ! i,
       a_i_avg[i := 0.5 * (a_i ! i + a_im1)],
       b_i_avg[i := 0.5 * (b_i ! i + b_im1)]))"

definition calculate_b_theta_at_particles ::
  "array \<Rightarrow> array \<Rightarrow> array \<Rightarrow> array \<Rightarrow> array \<Rightarrow> array \<Rightarrow> array \<Rightarrow> array \<Rightarrow> array \<Rightarrow> array" where
  "calculate_b_theta_at_particles r pr q gamma psi dr_psi dxi_psi b_theta_0 nabla_a =
    (case calculate_ai_bi r pr q gamma psi dr_psi dxi_psi b_theta_0 nabla_a of
      (a_i, b_i, a_0, idx) \<Rightarrow>
        let n_part = length r
        in case fold (b_theta_avg_step a_i b_i) idx (a_0, 0, zeros n_part, zeros n_part) of
             (a_im1, b_im1, a_i_avg, b_i_avg) \<Rightarrow>
               map (\<lambda>i. a_i_avg ! i * r ! i + b_i_avg ! i / r ! i) [0..<n_part])"

subsection \<open>\<open>calculate_b_theta\<close> (lines 616 to 666)\<close>

text \<open>The loop over the probe radii (lines 649 to 664), with \<open>i_last\<close> carried along.\<close>

fun b_theta_probe_loop ::
  "array \<Rightarrow> nat list \<Rightarrow> array \<Rightarrow> array \<Rightarrow> real \<Rightarrow> array \<Rightarrow> int \<Rightarrow> array" where
  "b_theta_probe_loop r idx a_i b_i a_0 [] i_last = []"
| "b_theta_probe_loop r idx a_i b_i a_0 (r_j # r_arr) i_last =
    (let i_last = find_i_last r r_j idx 0 i_last;
         v = (if i_last = - 1 then a_0 * r_j
              else let i_p = idx ! nat i_last in a_i ! i_p * r_j + b_i ! i_p / r_j)
     in v # b_theta_probe_loop r idx a_i b_i a_0 r_arr i_last)"

text \<open>With no particle the inner scan never runs, \<open>i_last\<close> keeps its initial value 0 and
  \<open>idx[0]\<close> is out of range for the first probe radius.\<close>

definition calculate_b_theta ::
  "array \<Rightarrow> array \<Rightarrow> array \<Rightarrow> array \<Rightarrow> array \<Rightarrow> array \<Rightarrow> array \<Rightarrow> array \<Rightarrow> array \<Rightarrow> array
    \<Rightarrow> error + array" where
  "calculate_b_theta r_arr r pr q gamma psi dr_psi dxi_psi b_theta_0 nabla_a =
    (case calculate_ai_bi r pr q gamma psi dr_psi dxi_psi b_theta_0 nabla_a of
      (a_i, b_i, a_0, idx) \<Rightarrow>
        if r = [] \<and> r_arr \<noteq> [] then Inl IndexError
        else Inr (b_theta_probe_loop r idx a_i b_i a_0 r_arr 0))"

section \<open>Equations of motion and the Runge-Kutta step (solver.py)\<close>

subsection \<open>Laser source terms (lines 824 to 851)\<close>

text \<open>The list \<open>laser_params\<close> built on lines 84 and 85.\<close>

record laser_params =
  lp_a_0 :: real
  lp_l_0 :: real
  lp_w_0 :: real
  lp_tau :: real
  lp_xi_c :: real
  lp_polarization :: string
  lp_z_foc :: real

definition get_nabla_a ::
  "scipy_constants \<Rightarrow> real \<Rightarrow> array \<Rightarrow> real \<Rightarrow> real \<Rightarrow> real \<Rightarrow> real \<Rightarrow> real \<Rightarrow> string \<Rightarrow> real \<Rightarrow> array" where
  "get_nabla_a ct xi r a_0 l_0 w_0 tau xi_c pol dz_foc =
    (let z_r = pi * w_0\<^sup>2 / l_0;
         w_fac = sqrt (1 + (dz_foc / z_r)\<^sup>2);
         s_r = w_0 * w_fac / sqrt 2;
         s_z = tau * ct_c ct / (2 * sqrt (2 * ln 2)) * sqrt 2;
         avg_amplitude = a_0;
         avg_amplitude = (if pol = ''linear'' then avg_amplitude / sqrt 2 else avg_amplitude)
     in map (\<lambda>r. - 2 * (avg_amplitude / w_fac)\<^sup>2 * r / s_r\<^sup>2
                  * (exp (- r\<^sup>2 / s_r\<^sup>2) * exp (- (xi - xi_c)\<^sup>2 / s_z\<^sup>2))) r)"

definition get_a2 ::
  "scipy_constants \<Rightarrow> real \<Rightarrow> array \<Rightarrow> real \<Rightarrow> real \<Rightarrow> real \<Rightarrow> real \<Rightarrow> real \<Rightarrow> string \<Rightarrow> real \<Rightarrow> array" where
  "get_a2 ct xi r a_0 l_0 w_0 tau xi_c pol dz_foc =
    (let z_r = pi * w_0\<^sup>2 / l_0;
         w_fac = sqrt (1 + (dz_foc / z_r)\<^sup>2);
         s_r = w_0 * w_fac / sqrt 2;
         s_z = tau * ct_c ct / (2 * sqrt (2 * ln 2)) * sqrt 2;
         avg_amplitude = a_0;
         avg_amplitude = (if pol = ''linear'' then avg_amplitude / sqrt 2 else avg_amplitude)
     in map (\<lambda>r. (avg_amplitude / w_fac)\<^sup>2
                  * (exp (- r\<^sup>2 / s_r\<^sup>2) * exp (- (xi - xi_c)\<^sup>2 / s_z\<^sup>2))) r)"

text \<open>The source terms at the particles (lines 251 to 261 and 392 to 402): \<open>nabla_a\<close> and
  \<open>a2\<close>, zero without a laser.\<close>

definition laser_sources ::
  "scipy_constants \<Rightarrow> real \<Rightarrow> array \<Rightarrow> laser_params option \<Rightarrow> real \<Rightarrow> array \<times> array" where
  "laser_sources ct xi r laser_params s_d =
    (let xi_si = xi * s_d;
         r_si = map (\<lambda>x. x * s_d) r
     in case laser_params of
          Some lp \<Rightarrow>
            (map (\<lambda>x. x * s_d)
               (get_nabla_a ct xi_si r_si (lp_a_0 lp) (lp_l_0 lp) (lp_w_0 lp) (lp_tau lp)
                  (lp_xi_c lp) (lp_polarization lp) (lp_z_foc lp)),
             get_a2 ct xi_si r_si (lp_a_0 lp) (lp_l_0 lp) (lp_w_0 lp) (lp_tau lp)
               (lp_xi_c lp) (lp_polarization lp) (lp_z_foc lp))
        | None \<Rightarrow> (zeros (length r), zeros (length r)))"

subsection \<open>\<open>calculate_derivatives\<close> (lines 268 to 328)\<close>

text \<open>The Lorentz factor of lines 311 to 314.\<close>

definition calculate_derivatives_gamma :: "nat \<Rightarrow> array \<Rightarrow> array \<Rightarrow> array \<Rightarrow> array" where
  "calculate_derivatives_gamma n_part pr a2 psi =
    map (\<lambda>i. let psi_i = psi ! i
             in (1 + (pr ! i)\<^sup>2 + a2 ! i + (1 + psi_i)\<^sup>2) / (2 * (1 + psi_i))) [0..<n_part]"

definition calculate_derivatives ::
  "real \<Rightarrow> array \<Rightarrow> array \<Rightarrow> array \<Rightarrow> array \<Rightarrow> array \<Rightarrow> array \<Rightarrow> error + (array \<times> array)" where
  "calculate_derivatives dxi r pr q b_theta_0 nabla_a a2 =
    (let n_part = length r
     in case calculate_psi_and_derivatives_at_particles r pr q of
          Inl e \<Rightarrow> Inl e
        | Inr (psi, dr_psi, dxi_psi) \<Rightarrow>
            let gamma = calculate_derivatives_gamma n_part pr a2 psi;
                b_theta_bar = calculate_b_theta_at_particles r pr q gamma psi dr_psi dxi_psi
                                b_theta_0 nabla_a;
                dpr = map (\<lambda>i. let psi_i = psi ! i
                                in dxi * (gamma ! i * dr_psi ! i / (1 + psi_i)
                                          - b_theta_bar ! i
                                          - b_theta_0 ! i
                                          - nabla_a ! i / (2 * (1 + psi_i)))) [0..<n_part];
                dr = map (\<lambda>i. dxi * pr ! i / (1 + psi ! i)) [0..<n_part]
            in Inr (dr, dpr))"

subsection \<open>Reflection at the axis\<close>

text \<open>The correction written out at both sites, lines 243 to 249 of \<open>motion_derivatives\<close> (on
  copies) and lines 346 to 349 of \<open>update_particles_rk4\<close> (in place):
  \<^verbatim>\<open>idx_neg = np.where(r < 0.)\<close>, then \<^verbatim>\<open>r[idx_neg] *= -1.\<close> and \<^verbatim>\<open>pr[idx_neg] *= -1.\<close>
  when \<open>idx_neg\<close> is not empty.\<close>

definition invert_negative :: "array \<Rightarrow> array \<Rightarrow> array \<times> array" where
  "invert_negative r pr =
    (let idx_neg = filter (\<lambda>i. r ! i < 0) [0..<length r]
     in if length idx_neg > 0
        then (fold (\<lambda>i x. x[i := x ! i * (- 1)]) idx_neg r,
              fold (\<lambda>i x. x[i := x ! i * (- 1)]) idx_neg pr)
        else (r, pr))"

subsection \<open>\<open>motion_derivatives\<close> (lines 230 to 265)\<close>

text \<open>\<open>beam_source\<close> is the interpolator returned by \<open>get_beam_function\<close>, or \<open>None\<close>; it is
  called without a test, so \<open>None\<close> raises.\<close>

definition motion_derivatives ::
  "scipy_constants \<Rightarrow> real \<Rightarrow> real \<Rightarrow> array \<Rightarrow> array \<Rightarrow> array \<Rightarrow> laser_params option
    \<Rightarrow> (array \<Rightarrow> real \<Rightarrow> array) option \<Rightarrow> real \<Rightarrow> error + (array \<times> array)" where
  "motion_derivatives ct dxi xi r pr q laser_params beam_source s_d =
    (case invert_negative r pr of
      (r, pr) \<Rightarrow>
        (case laser_sources ct xi r laser_params s_d of
          (nabla_a, a2) \<Rightarrow>
            (case beam_source of
               None \<Rightarrow> Inl TypeError
             | Some f \<Rightarrow> calculate_derivatives dxi r pr q (f r xi) nabla_a a2)))"

subsection \<open>\<open>update_particles_rk4\<close> (lines 331 to 350)\<close>

definition rk4_push_step ::
  "real \<Rightarrow> array \<Rightarrow> array \<Rightarrow> array \<Rightarrow> array \<Rightarrow> array \<Rightarrow> array \<Rightarrow> array \<Rightarrow> array \<Rightarrow> nat
    \<Rightarrow> array \<times> array \<Rightarrow> array \<times> array" where
  "rk4_push_step inv_6 Ar Br Cr Dr Apr Bpr Cpr Dpr i s =
    (case s of (r, pr) \<Rightarrow>
      (r[i := r ! i + (Ar ! i + 2 * (Br ! i + Cr ! i) + Dr ! i) * inv_6],
       pr[i := pr ! i + (Apr ! i + 2 * (Bpr ! i + Cpr ! i) + Dpr ! i) * inv_6]))"

definition update_particles_rk4 ::
  "array \<Rightarrow> array \<Rightarrow> array \<Rightarrow> array \<Rightarrow> array \<Rightarrow> array \<Rightarrow> array \<Rightarrow> array \<Rightarrow> array \<Rightarrow> array
    \<Rightarrow> array \<times> array" where
  "update_particles_rk4 r pr Ar Br Cr Dr Apr Bpr Cpr Dpr =
    (let inv_6 = 1 / 6
     in case fold (rk4_push_step inv_6 Ar Br Cr Dr Apr Bpr Cpr Dpr) [0..<length r] (r, pr) of
          (r, pr) \<Rightarrow> invert_negative r pr)"

subsection \<open>\<open>evolve_plasma\<close> (lines 174 to 227)\<close>

definition evolve_plasma ::
  "scipy_constants \<Rightarrow> array \<Rightarrow> array \<Rightarrow> array \<Rightarrow> real \<Rightarrow> real \<Rightarrow> laser_params option
    \<Rightarrow> (array \<Rightarrow> real \<Rightarrow> array) option \<Rightarrow> real \<Rightarrow> error + (array \<times> array)" where
  "evolve_plasma ct r pr q xi dxi laser_params beam_source s_d =
    (case motion_derivatives ct dxi xi r pr q laser_params beam_source s_d of
       Inl e \<Rightarrow> Inl e
     | Inr (Ar, Apr) \<Rightarrow>
    (case motion_derivatives ct dxi (xi - dxi / 2)
            (map2 (\<lambda>x k. x + k / 2) r Ar) (map2 (\<lambda>x k. x + k / 2) pr Apr) q
            laser_params beam_source s_d of
       Inl e \<Rightarrow> Inl e
     | Inr (Br, Bpr) \<Rightarrow>
    (case motion_derivatives ct dxi (xi - dxi / 2)
            (map2 (\<lambda>x k. x + k / 2) r Br) (map2 (\<lambda>x k. x + k / 2) pr Bpr) q
            laser_params beam_source s_d of
       Inl e \<Rightarrow> Inl e
     | Inr (Cr, Cpr) \<Rightarrow>
    (case motion_derivatives ct dxi (xi - dxi)
            (map2 (\<lambda>x k. x + k) r Cr) (map2 (\<lambda>x k. x + k) pr Cpr) q
            laser_params beam_source s_d of
       Inl e \<Rightarrow> Inl e
     | Inr (Dr, Dpr) \<Rightarrow> Inr (update_particles_rk4 r pr Ar Br Cr Dr Apr Bpr Cpr Dpr)))))"

subsection \<open>\<open>calculate_fields\<close> (lines 353 to 414)\<close>

text \<open>The Lorentz factor of line 407.\<close>

definition calculate_fields_gamma :: "array \<Rightarrow> array \<Rightarrow> array \<Rightarrow> array" where
  "calculate_fields_gamma pr a2 psi =
    map (\<lambda>i. (1 + (pr ! i)\<^sup>2 + a2 ! i / 2 + (1 + psi ! i)\<^sup>2) / (2 * (1 + psi ! i)))
      [0..<length pr]"

definition calculate_fields ::
  "scipy_constants \<Rightarrow> array \<Rightarrow> real \<Rightarrow> array \<Rightarrow> array \<Rightarrow> array \<Rightarrow> laser_params option
    \<Rightarrow> (array \<Rightarrow> real \<Rightarrow> array) option \<Rightarrow> real
    \<Rightarrow> error + (array \<times> array \<times> array \<times> array \<times> array)" where
  "calculate_fields ct r_arr xi r pr q laser_params beam_source s_d =
    (case laser_sources ct xi r laser_params s_d of
      (nabla_a, a2) \<Rightarrow>
    (case beam_source of
       None \<Rightarrow> Inl TypeError
     | Some f \<Rightarrow>
    (let b_theta_0 = f r xi
     in case calculate_psi_and_derivatives_at_particles r pr q of
          Inl e \<Rightarrow> Inl e
        | Inr (psi, dr_psi, dxi_psi) \<Rightarrow>
    (let gamma = calculate_fields_gamma pr a2 psi;
         b_theta_0_r = f r_arr xi
     in case calculate_psi_and_derivatives r_arr r pr q of
          Inl e \<Rightarrow> Inl e
        | Inr (psi_r, dr_psi_r, dxi_psi_r) \<Rightarrow>
    (case calculate_b_theta r_arr r pr q gamma psi dr_psi dxi_psi b_theta_0 nabla_a of
       Inl e \<Rightarrow> Inl e
     | Inr b_theta_bar_r \<Rightarrow> Inr (psi_r, dr_psi_r, dxi_psi_r, b_theta_bar_r, b_theta_0_r))))))"

section \<open>The driver \<open>calculate_wakefields\<close> (solver.py, lines 27 to 171)\<close>

text \<open>
  A two-dimensional array of shape \<open>(n_r, n_xi)\<close> is the list of its \<open>n_xi\<close> columns, each a list
  over the radial cells: \<open>mesh[:, i]\<close> is the element \<open>i\<close> of the list, and the negative index
  \<open>-1 - step\<close> is the position \<open>n_xi - 1 - step\<close>. The grids \<open>rho\<close> and \<open>chi\<close>, of shape
  \<open>(n_xi + 4, n_r + 4)\<close>, are lists of rows.
\<close>

type_synonym mesh = "array list"



text \<open>
  The deposition routines of \<open>wake_t.particles.charge_deposition\<close> and
  \<open>wake_t.particles.susceptibility_deposition\<close> are not part of the two modelled files; they
  are parameters, with the argument lists of the calls, and may raise.
\<close>

record collaborators =
  charge_distribution_cyl ::
    "array \<Rightarrow> array \<Rightarrow> array \<Rightarrow> array \<Rightarrow> real \<Rightarrow> real \<Rightarrow> nat \<Rightarrow> nat \<Rightarrow> real \<Rightarrow> real \<Rightarrow> mesh \<Rightarrow> string
      \<Rightarrow> error + mesh"
  deposit_susceptibility_cyl ::
    "array \<Rightarrow> array \<Rightarrow> array \<Rightarrow> array \<Rightarrow> real \<Rightarrow> real \<Rightarrow> nat \<Rightarrow> real \<Rightarrow> real \<Rightarrow> mesh \<Rightarrow> array \<Rightarrow> string
      \<Rightarrow> error + mesh"

text \<open>The variables that the main loop reads and never assigns.\<close>

record driver_env =
  env_ct :: scipy_constants
  env_ext :: collaborators
  env_r_max :: real
  env_xi_max :: real
  env_dxi :: real
  env_dr_p :: real
  env_n_xi :: nat
  env_n_part :: nat
  env_r_arr :: array
  env_xi_arr :: array
  env_laser_params :: "laser_params option"
  env_beam_source :: "(array \<Rightarrow> real \<Rightarrow> array) option"
  env_s_d :: real
  env_p_shape :: string

text \<open>The variables that the main loop assigns: the plasma column, the deposition grids
  and the five field meshes.\<close>

record plasma_state =
  col_r :: array
  col_pr :: array
  col_gamma :: array
  col_q :: array
  rho :: mesh
  chi :: mesh
  psi_mesh :: mesh
  dr_psi_mesh :: mesh
  dxi_psi_mesh :: mesh
  b_theta_bar_mesh :: mesh
  b_theta_0_mesh :: mesh

text \<open>How one pass through the loop body ends: at its last statement, or at \<open>break\<close>.\<close>

datatype 'a step_result = Continue 'a | Break 'a

fun result_state :: "'a step_result \<Rightarrow> 'a" where
  "result_state (Continue s) = s"
| "result_state (Break s) = s"

text \<open>The loop body, lines 129 to 158. The arguments \<open>xi_arr[0]\<close> and \<open>r[0]\<close> of the
  deposition calls are read after the fields are computed; \<open>r\<close> is not empty there.\<close>

definition xi_step :: "driver_env \<Rightarrow> nat \<Rightarrow> plasma_state \<Rightarrow> error + plasma_state step_result" where
  "xi_step env step st =
    (let xi = env_xi_max env - env_dxi env * real step
     in case evolve_plasma (env_ct env) (col_r st) (col_pr st) (col_q st) xi (env_dxi env)
               (env_laser_params env) (env_beam_source env) (env_s_d env) of
          Inl e \<Rightarrow> Inl e
        | Inr (r, pr) \<Rightarrow>
    (let idx_keep = filter (\<lambda>i. r ! i \<le> env_r_max env + 0.1) [0..<length r];
         r = map (\<lambda>i. r ! i) idx_keep;
         pr = map (\<lambda>i. pr ! i) idx_keep;
         gamma = map (\<lambda>i. col_gamma st ! i) idx_keep;
         q = map (\<lambda>i. col_q st ! i) idx_keep;
         st = st\<lparr>col_r := r, col_pr := pr, col_gamma := gamma, col_q := q\<rparr>
     in if length r = 0 then Inr (Break st)
        else
    (case calculate_fields (env_ct env) (env_r_arr env) xi r pr q
            (env_laser_params env) (env_beam_source env) (env_s_d env) of
       Inl e \<Rightarrow> Inl e
     | Inr (psi_f, dr_psi_f, dxi_psi_f, b_theta_bar_f, b_theta_0_f) \<Rightarrow>
    (if env_xi_arr env = [] then Inl IndexError
     else
    (case charge_distribution_cyl (env_ext env) (replicate (length r) xi) r (zeros (length r)) q
            (env_xi_arr env ! 0) (r ! 0) (env_n_xi env) (env_n_part env) (env_dxi env)
            (env_dr_p env) (rho st) (env_p_shape env) of
       Inl e \<Rightarrow> Inl e
     | Inr rho_new \<Rightarrow>
    (case deposit_susceptibility_cyl (env_ext env) (replicate (length r) xi) r (zeros (length r)) q
            (env_xi_arr env ! 0) (r ! 0) (env_n_part env) (env_dxi env)
            (env_dr_p env) (chi st) (replicate (length r) 1) (env_p_shape env) of
       Inl e \<Rightarrow> Inl e
     | Inr chi_new \<Rightarrow>
    (let i = env_n_xi env - 1 - step
     in Inr (Continue (st\<lparr>rho := rho_new, chi := chi_new,
               psi_mesh := (psi_mesh st)[i := psi_f],
               dr_psi_mesh := (dr_psi_mesh st)[i := dr_psi_f],
               dxi_psi_mesh := (dxi_psi_mesh st)[i := dxi_psi_f],
               b_theta_bar_mesh := (b_theta_bar_mesh st)[i := b_theta_bar_f],
               b_theta_0_mesh := (b_theta_0_mesh st)[i := b_theta_0_f]\<rparr>)))))))))"

text \<open>The loop \<open>for step in np.arange(n_xi)\<close> over the remaining steps. The result tells
  whether the loop ran to its end or left at \<open>break\<close>.\<close>

fun xi_loop :: "driver_env \<Rightarrow> nat list \<Rightarrow> plasma_state \<Rightarrow> error + plasma_state step_result" where
  "xi_loop env [] st = Inr (Continue st)"
| "xi_loop env (step # steps) st =
    (case xi_step env step st of
       Inl e \<Rightarrow> Inl e
     | Inr (Break st') \<Rightarrow> Inr (Break st')
     | Inr (Continue st') \<Rightarrow> xi_loop env steps st')"








section \<open>Boris pusher (boris\_pusher.py)\<close>

text \<open>One iteration of the loop of \<open>push_momentum\<close> (lines 45 to 78), at index \<open>i\<close>.\<close>

definition push_momentum_step ::
  "scipy_constants \<Rightarrow> real \<Rightarrow> real list \<Rightarrow> real list \<Rightarrow> real list \<Rightarrow> real list \<Rightarrow> real list \<Rightarrow> real list
    \<Rightarrow> nat \<Rightarrow> real list \<times> real list \<times> real list \<Rightarrow> real list \<times> real list \<times> real list" where
  "push_momentum_step ct k ex ey ez bx by bz i s =
    (case s of (px, py, pz) \<Rightarrow>
      let px_i = px ! i; py_i = py ! i; pz_i = pz ! i;
          ex_i = ex ! i; ey_i = ey ! i; ez_i = ez ! i;
          bx_i = bx ! i; by_i = by ! i; bz_i = bz ! i;
          p_minus_x = px_i + k * ex_i;
          p_minus_y = py_i + k * ey_i;
          p_minus_z = pz_i + k * ez_i;
          c_over_gamma_med = ct_c ct / sqrt (1 + (p_minus_x\<^sup>2 + p_minus_y\<^sup>2 + p_minus_z\<^sup>2));
          t_x = k * c_over_gamma_med * bx_i;
          t_y = k * c_over_gamma_med * by_i;
          t_z = k * c_over_gamma_med * bz_i;
          cons_s = 2 / (1 + t_x\<^sup>2 + t_y\<^sup>2 + t_z\<^sup>2);
          s_x = cons_s * t_x;
          s_y = cons_s * t_y;
          s_z = cons_s * t_z;
          p_xc1 = p_minus_x + p_minus_y * t_z - p_minus_z * t_y;
          p_yc1 = p_minus_y + p_minus_z * t_x - p_minus_x * t_z;
          p_zc1 = p_minus_z + p_minus_x * t_y - p_minus_y * t_x
      in (px[i := p_minus_x + p_yc1 * s_z - p_zc1 * s_y + k * ex_i],
          py[i := p_minus_y + p_zc1 * s_x - p_xc1 * s_z + k * ey_i],
          pz[i := p_minus_z + p_xc1 * s_y - p_yc1 * s_x + k * ez_i]))"

text \<open>\<open>push_momentum\<close>: the arrays \<open>px\<close>, \<open>py\<close>, \<open>pz\<close> are updated in place; the model
  returns their final contents.\<close>

definition push_momentum ::
  "scipy_constants \<Rightarrow> real list \<Rightarrow> real list \<Rightarrow> real list \<Rightarrow> real list \<Rightarrow> real list \<Rightarrow> real list
    \<Rightarrow> real list \<Rightarrow> real list \<Rightarrow> real list \<Rightarrow> real \<Rightarrow> real list \<times> real list \<times> real list" where
  "push_momentum ct px py pz ex ey ez bx by bz dt =
    (let k = - ct_e ct * dt / (ct_m_e ct * 2 * ct_c ct)
     in fold (push_momentum_step ct k ex ey ez bx by bz) [0..<length px] (px, py, pz))"

section \<open>Example inputs\<close>

text \<open>Concrete constants, collaborators, beam fields, loop environments and states, used to
  instantiate the theorems below.\<close>

abbreviation example_ct :: scipy_constants where
  "example_ct \<equiv> \<lparr>ct_c = 299792458, ct_e = 1, ct_m_e = 1\<rparr>"

abbreviation example_ext :: collaborators where
  "example_ext \<equiv>
    \<lparr>charge_distribution_cyl = (\<lambda>z x y w z_min r_min n_z n_p dz dr_p grid shape. Inr grid),
     deposit_susceptibility_cyl = (\<lambda>z x y w z_min r_min n_p dz dr_p grid g shape. Inr grid)\<rparr>"





abbreviation removal_env :: driver_env where
  "removal_env \<equiv>
    \<lparr>env_ct = example_ct, env_ext = example_ext, env_r_max = 2, env_xi_max = 0,
     env_dxi = 0, env_dr_p = 1, env_n_xi = 1, env_n_part = 2,
     env_r_arr = [1], env_xi_arr = [0], env_laser_params = None,
     env_beam_source = Some (\<lambda>rs x. map (\<lambda>_. 0) rs), env_s_d = 1, env_p_shape = ''linear''\<rparr>"

abbreviation removal_st :: plasma_state where
  "removal_st \<equiv>
    \<lparr>col_r = [1, 3], col_pr = [5, 6], col_gamma = [1, 1], col_q = [1, 2],
     rho = [], chi = [],
     psi_mesh = [[0]], dr_psi_mesh = [[0]], dxi_psi_mesh = [[0]],
     b_theta_bar_mesh = [[0]], b_theta_0_mesh = [[0]]\<rparr>"



section \<open>Properties of the Boris pusher\<close>

lemma push_momentum_step_length:
  "push_momentum_step ct k ex ey ez bx by bz i (px, py, pz) = (px', py', pz') \<Longrightarrow>
   length px' = length px \<and> length py' = length py \<and> length pz' = length pz"
  by (auto simp: push_momentum_step_def Let_def)

lemma push_momentum_step_other:
  "push_momentum_step ct k ex ey ez bx by bz i (px, py, pz) = (px', py', pz') \<Longrightarrow> j \<noteq> i \<Longrightarrow>
   px' ! j = px ! j \<and> py' ! j = py ! j \<and> pz' ! j = pz ! j"
  by (auto simp: push_momentum_step_def Let_def)

lemma push_momentum_step_zero_field:
  assumes "push_momentum_step ct k ex ey ez bx by bz i (px, py, pz) = (px', py', pz')"
    and "ex ! i = 0" "ey ! i = 0" "ez ! i = 0" "bx ! i = 0" "by ! i = 0" "bz ! i = 0"
  shows "px' ! i = px ! i \<and> py' ! i = py ! i \<and> pz' ! i = pz ! i"
proof -
  have "px' = px[i := px ! i]" "py' = py[i := py ! i]" "pz' = pz[i := pz ! i]"
    using assms by (simp_all add: push_momentum_step_def Let_def)
  then show ?thesis by simp
qed

lemma push_momentum_fold_zero_field:
  assumes "ex ! i = 0" "ey ! i = 0" "ez ! i = 0" "bx ! i = 0" "by ! i = 0" "bz ! i = 0"
  shows "fold (push_momentum_step ct k ex ey ez bx by bz) [0..<n] (px, py, pz) = (px', py', pz') \<Longrightarrow>
         px' ! i = px ! i \<and> py' ! i = py ! i \<and> pz' ! i = pz ! i"
proof (induction n arbitrary: px' py' pz')
  case 0
  then show ?case by simp
next
  case (Suc n)
  obtain qx qy qz where mid:
    "fold (push_momentum_step ct k ex ey ez bx by bz) [0..<n] (px, py, pz) = (qx, qy, qz)"
    by (metis prod_cases3)
  have last_step: "push_momentum_step ct k ex ey ez bx by bz n (qx, qy, qz) = (px', py', pz')"
    using Suc.prems mid by simp
  have keep: "qx ! i = px ! i \<and> qy ! i = py ! i \<and> qz ! i = pz ! i"
    using Suc.IH [OF mid] .
  show ?case
  proof (cases "i = n")
    case True
    then show ?thesis
      using push_momentum_step_zero_field [OF last_step] assms keep by simp
  next
    case False
    then show ?thesis
      using push_momentum_step_other [OF last_step, of i] keep by simp
  qed
qed

text \<open>
  Claim C10. A particle whose six gathered field components are all zero keeps its
  momentum under \<open>push_momentum\<close>: the entries \<open>px[i]\<close>, \<open>py[i]\<close>, \<open>pz[i]\<close> of the updated
  arrays equal the entries before the push.
\<close>

theorem push_momentum_zero_field_identity:
  assumes "push_momentum ct px py pz ex ey ez bx by bz dt = (px', py', pz')"
    and "ex ! i = 0" "ey ! i = 0" "ez ! i = 0" "bx ! i = 0" "by ! i = 0" "bz ! i = 0"
  shows "px' ! i = px ! i \<and> py' ! i = py ! i \<and> pz' ! i = pz ! i"
  using assms(1) push_momentum_fold_zero_field [OF assms(2-7)]
  by (simp add: push_momentum_def Let_def)

theorem push_momentum_zero_field_identity_witness:
  "push_momentum \<lparr>ct_c = 3, ct_e = 1, ct_m_e = 1\<rparr> [1, 2] [3, 4] [5, 6]
      [7, 0] [8, 0] [9, 0] [1, 0] [2, 0] [3, 0] 1
    = push_momentum \<lparr>ct_c = 3, ct_e = 1, ct_m_e = 1\<rparr> [1, 2] [3, 4] [5, 6]
      [7, 0] [8, 0] [9, 0] [1, 0] [2, 0] [3, 0] 1
   \<and> fst (push_momentum \<lparr>ct_c = 3, ct_e = 1, ct_m_e = 1\<rparr> [1, 2] [3, 4] [5, 6]
      [7, 0] [8, 0] [9, 0] [1, 0] [2, 0] [3, 0] 1) ! 1 = 2"
  using push_momentum_zero_field_identity
    [of "\<lparr>ct_c = 3, ct_e = 1, ct_m_e = 1\<rparr>" "[1, 2]" "[3, 4]" "[5, 6]"
        "[7, 0]" "[8, 0]" "[9, 0]" "[1, 0]" "[2, 0]" "[3, 0]" 1
        "fst (push_momentum \<lparr>ct_c = 3, ct_e = 1, ct_m_e = 1\<rparr> [1, 2] [3, 4] [5, 6]
          [7, 0] [8, 0] [9, 0] [1, 0] [2, 0] [3, 0] 1)"
        "fst (snd (push_momentum \<lparr>ct_c = 3, ct_e = 1, ct_m_e = 1\<rparr> [1, 2] [3, 4] [5, 6]
          [7, 0] [8, 0] [9, 0] [1, 0] [2, 0] [3, 0] 1))"
        "snd (snd (push_momentum \<lparr>ct_c = 3, ct_e = 1, ct_m_e = 1\<rparr> [1, 2] [3, 4] [5, 6]
          [7, 0] [8, 0] [9, 0] [1, 0] [2, 0] [3, 0] 1))"
        1]
  by simp

section \<open>Properties of the field solver\<close>

subsection \<open>The ascending order\<close>

lemma argsort_set: "set (argsort r) = {0..<length r}"
  by (simp add: argsort_def)

lemma argsort_length: "length (argsort r) = length r"
  by (simp add: argsort_def)

lemma argsort_distinct: "distinct (argsort r)"
  by (simp add: argsort_def)

lemma argsort_sorted: "sorted (map (\<lambda>i. r ! i) (argsort r))"
  by (simp add: argsort_def)

lemma argsort_nonempty: "r \<noteq> [] \<Longrightarrow> argsort r \<noteq> []"
  using argsort_length [of r] by auto

lemma argsort_last_outermost:
  assumes "i < length r"
  shows "r ! i \<le> r ! last (argsort r)"
proof -
  let ?idx = "argsort r"
  have "r \<noteq> []" using assms by auto
  then have ne: "?idx \<noteq> []" by (rule argsort_nonempty)
  have "i \<in> set ?idx" using assms by (simp add: argsort_set)
  then obtain k where k: "k < length ?idx" "?idx ! k = i"
    by (auto simp: in_set_conv_nth)
  have "map (\<lambda>i. r ! i) ?idx ! k \<le> map (\<lambda>i. r ! i) ?idx ! (length ?idx - 1)"
    using argsort_sorted [of r] k(1) by (intro sorted_nth_mono) auto
  then show ?thesis
    using k ne by (simp add: last_conv_nth)
qed

lemma ai_bi_step_shape:
  "\<exists>K_i U_i T_i P_i.
     ai_bi_step r pr q gamma psi dr_psi dxi_psi b_theta_0 nabla_a i (k, u, t, p, K, U, T, P)
     = (K_i, U_i, T_i, P_i, K[i := K_i], U[i := U_i], T[i := T_i], P[i := P_i])"
  by (simp add: ai_bi_step_def Let_def)

lemma ai_bi_fold_lengths:
  "fold (ai_bi_step r pr q gamma psi dr_psi dxi_psi b_theta_0 nabla_a) xs (k, u, t, p, K, U, T, P)
     = (k', u', t', p', K', U', T', P') \<Longrightarrow>
   length K' = length K \<and> length U' = length U \<and> length T' = length T \<and> length P' = length P"
proof (induction xs arbitrary: k u t p K U T P)
  case Nil
  then show ?case by simp
next
  case (Cons x xs)
  obtain K_i U_i T_i P_i where st:
    "ai_bi_step r pr q gamma psi dr_psi dxi_psi b_theta_0 nabla_a x (k, u, t, p, K, U, T, P)
     = (K_i, U_i, T_i, P_i, K[x := K_i], U[x := U_i], T[x := T_i], P[x := P_i])"
    by atomize_elim (rule ai_bi_step_shape)
  show ?case
    using Cons.IH [of K_i U_i T_i P_i "K[x := K_i]" "U[x := U_i]" "T[x := T_i]" "P[x := P_i]"]
      Cons.prems st by simp
qed

lemma ai_bi_fold_last:
  assumes "xs \<noteq> []"
    and "last xs < length K" "last xs < length U" "last xs < length T" "last xs < length P"
    and "fold (ai_bi_step r pr q gamma psi dr_psi dxi_psi b_theta_0 nabla_a) xs
           (k, u, t, p, K, U, T, P) = (k', u', t', p', K', U', T', P')"
  shows "K' ! last xs = k' \<and> U' ! last xs = u' \<and> T' ! last xs = t' \<and> P' ! last xs = p'"
proof -
  let ?f = "ai_bi_step r pr q gamma psi dr_psi dxi_psi b_theta_0 nabla_a"
  obtain k1 u1 t1 p1 K1 U1 T1 P1 where mid:
    "fold ?f (butlast xs) (k, u, t, p, K, U, T, P) = (k1, u1, t1, p1, K1, U1, T1, P1)"
    by (metis prod_cases3)
  have len: "length K1 = length K \<and> length U1 = length U \<and> length T1 = length T \<and> length P1 = length P"
    using ai_bi_fold_lengths [OF mid] .
  have "fold ?f (butlast xs @ [last xs]) (k, u, t, p, K, U, T, P)
        = ?f (last xs) (fold ?f (butlast xs) (k, u, t, p, K, U, T, P))"
    by simp
  moreover have "butlast xs @ [last xs] = xs"
    using assms(1) by simp
  ultimately have "fold ?f xs (k, u, t, p, K, U, T, P)
        = ?f (last xs) (fold ?f (butlast xs) (k, u, t, p, K, U, T, P))"
    by simp
  then have fin: "?f (last xs) (k1, u1, t1, p1, K1, U1, T1, P1) = (k', u', t', p', K', U', T', P')"
    using assms(6) mid by simp
  obtain K_i U_i T_i P_i where st:
    "?f (last xs) (k1, u1, t1, p1, K1, U1, T1, P1)
     = (K_i, U_i, T_i, P_i, K1[last xs := K_i], U1[last xs := U_i], T1[last xs := T_i], P1[last xs := P_i])"
    by atomize_elim (rule ai_bi_step_shape)
  show ?thesis
    using fin st len assms(2-5) by auto
qed

text \<open>
  Claim C4 (amended). Over exact real arithmetic, for a non-empty column, the forward sweep of
  the \<open>(K, U, T, P)\<close> recursion from \<open>K_0 = 1\<close>, \<open>U_0 = T_0 = P_0 = 0\<close> ends in
  \<open>(K_N, U_N, T_N, P_N)\<close>; when \<open>K_N\<close> is not zero the single division \<open>a_0 = - T_N / K_N\<close>
  makes \<open>a_i = K_i * a_0 + T_i\<close> vanish at the last index of the ascending order, which is a
  particle of largest radius. No iteration is involved. In the float64 arithmetic of the
  program the same expression is a rounding residual, which need not be zero.
\<close>

theorem calculate_ai_bi_boundary_closure:
  assumes "r \<noteq> []"
    and "ai_bi_sweep r pr q gamma psi dr_psi dxi_psi b_theta_0 nabla_a
           = (K_N, U_N, T_N, P_N, K, U, T, P)"
    and "K_N \<noteq> 0"
    and "calculate_ai_bi r pr q gamma psi dr_psi dxi_psi b_theta_0 nabla_a = (a_i, b_i, a_0, idx)"
  shows "idx = argsort r \<and> (\<forall>i < length r. r ! i \<le> r ! last idx) \<and> K ! last idx = K_N \<and> T ! last idx = T_N
         \<and> a_0 = - T_N / K_N \<and> a_i ! last idx = K_N * a_0 + T_N \<and> a_i ! last idx = 0"
proof -
  let ?N = "last (argsort r)"
  have ne: "argsort r \<noteq> []" using assms(1) by (rule argsort_nonempty)
  have "?N \<in> set (argsort r)" using ne by simp
  then have N: "?N < length r" by (simp add: argsort_set)
  have sweep: "fold (ai_bi_step r pr q gamma psi dr_psi dxi_psi b_theta_0 nabla_a) (argsort r)
      (1, 0, 0, 0, zeros (length r), zeros (length r), zeros (length r), zeros (length r))
      = (K_N, U_N, T_N, P_N, K, U, T, P)"
    using assms(2) by (simp add: ai_bi_sweep_def Let_def)
  have len: "length K = length r \<and> length U = length r \<and> length T = length r \<and> length P = length r"
    using ai_bi_fold_lengths [OF sweep] by (simp add: zeros_def)
  have lastv: "K ! ?N = K_N \<and> U ! ?N = U_N \<and> T ! ?N = T_N \<and> P ! ?N = P_N"
    using ai_bi_fold_last [OF ne _ _ _ _ sweep] N by (simp add: zeros_def)
  have "(a_i, b_i, a_0, idx)
        = (map2 (\<lambda>k t. k * (- T_N / K_N) + t) K T, map2 (\<lambda>u p. u * (- T_N / K_N) + p) U P,
           - T_N / K_N, argsort r)"
    using assms(4) by (simp only: calculate_ai_bi_def assms(2) prod.case Let_def)
  then have res: "idx = argsort r" "a_0 = - T_N / K_N" "a_i = map2 (\<lambda>k t. k * a_0 + t) K T"
    by (simp_all only: prod.inject)
  have aN: "a_i ! ?N = K_N * a_0 + T_N"
    using res(3) len N lastv by simp
  have "K_N * a_0 + T_N = 0"
    using res(2) assms(3) by simp
  then show ?thesis
    using res(1,2) aN lastv argsort_last_outermost [of _ r] by simp
qed

lemma find_i_last_takeWhile:
  "idx \<noteq> [] \<Longrightarrow>
   find_i_last r r_j idx k il = int k + int (length (takeWhile (\<lambda>i. r ! i < r_j) idx)) - 1"
proof (induction idx arbitrary: k il)
  case Nil
  then show ?case by simp
next
  case (Cons i idx)
  show ?case
  proof (cases "r ! i \<ge> r_j")
    case True
    then show ?thesis by simp
  next
    case False
    show ?thesis
    proof (cases "idx = []")
      case True
      with False show ?thesis by simp
    next
      case ne: False
      show ?thesis
        using False Cons.IH [OF ne, of "Suc k" "int k"] by simp
    qed
  qed
qed

lemma takeWhile_sorted_filter:
  "sorted (map f xs) \<Longrightarrow> takeWhile (\<lambda>x. f x < (c::real)) xs = filter (\<lambda>x. f x < c) xs"
proof (induction xs)
  case Nil
  then show ?case by simp
next
  case (Cons x xs)
  show ?case
  proof (cases "f x < c")
    case True
    with Cons show ?thesis by simp
  next
    case False
    have "\<forall>y\<in>set xs. f x \<le> f y" using Cons.prems by auto
    then have "\<forall>y\<in>set xs. \<not> f y < c" using False by fastforce
    then have "filter (\<lambda>x. f x < c) xs = []" by (simp add: filter_empty_conv)
    with False show ?thesis by simp
  qed
qed

lemma b_theta_probe_loop_length:
  "length (b_theta_probe_loop r idx a_i b_i a_0 r_arr il) = length r_arr"
  by (induction r_arr arbitrary: il) (simp_all add: Let_def)

lemma b_theta_probe_loop_nth:
  assumes "idx \<noteq> []"
  shows "j < length r_arr \<Longrightarrow>
    b_theta_probe_loop r idx a_i b_i a_0 r_arr il ! j =
      (if find_i_last r (r_arr ! j) idx 0 0 = - 1 then a_0 * r_arr ! j
       else a_i ! (idx ! nat (find_i_last r (r_arr ! j) idx 0 0)) * r_arr ! j
            + b_i ! (idx ! nat (find_i_last r (r_arr ! j) idx 0 0)) / r_arr ! j)"
proof (induction r_arr arbitrary: j il)
  case Nil
  then show ?case by simp
next
  case (Cons r_j r_arr)
  have indep: "find_i_last r r_j idx 0 il = find_i_last r r_j idx 0 0"
    using assms by (simp add: find_i_last_takeWhile)
  show ?case
  proof (cases j)
    case 0
    then show ?thesis using indep by (simp add: Let_def)
  next
    case (Suc j')
    then show ?thesis using Cons by (simp add: Let_def)
  qed
qed

lemma last_below:
  assumes "idx \<noteq> []" "sorted (map (\<lambda>i. r ! i) idx)"
  shows "find_i_last r r_j idx 0 0 = int (length (filter (\<lambda>i. r ! i < r_j) idx)) - 1"
    and "filter (\<lambda>i. r ! i < r_j) idx \<noteq> [] \<Longrightarrow>
         idx ! nat (find_i_last r r_j idx 0 0) = last (filter (\<lambda>i. r ! i < r_j) idx)"
proof -
  let ?P = "\<lambda>i. r ! i < r_j"
  have tw: "takeWhile ?P idx = filter ?P idx"
    using assms(2) by (rule takeWhile_sorted_filter)
  show fi: "find_i_last r r_j idx 0 0 = int (length (filter ?P idx)) - 1"
    using find_i_last_takeWhile [OF assms(1), of r r_j 0 0] tw by simp
  assume ne: "filter ?P idx \<noteq> []"
  then have pos: "0 < length (takeWhile ?P idx)" using tw by simp
  have "idx ! (length (takeWhile ?P idx) - 1) = takeWhile ?P idx ! (length (takeWhile ?P idx) - 1)"
    using pos by (intro takeWhile_nth [symmetric]) simp
  also have "\<dots> = last (takeWhile ?P idx)"
    using pos by (simp add: last_conv_nth)
  finally show "idx ! nat (find_i_last r r_j idx 0 0) = last (filter ?P idx)"
    using fi tw pos by (simp add: nat_diff_distrib')
qed

text \<open>
  Claim C5 (amended). For a non-empty column, the probe-mode \<open>b_theta\<close> at a probe radius
  \<open>r_j\<close> that no particle radius is strictly below (\<open>r_j \<le> r_i\<close> for every particle) is
  \<open>a_0 * r_j\<close>; at any other probe radius it is \<open>a_i * r_j + b_i / r_j\<close> for \<open>i\<close> the last
  particle, in ascending radial order, whose radius is strictly smaller than \<open>r_j\<close>.
\<close>

theorem calculate_b_theta_one_sided:
  assumes "r \<noteq> []"
    and "calculate_ai_bi r pr q gamma psi dr_psi dxi_psi b_theta_0 nabla_a = (a_i, b_i, a_0, idx)"
  shows "\<exists>b_theta_mesh.
      calculate_b_theta r_arr r pr q gamma psi dr_psi dxi_psi b_theta_0 nabla_a = Inr b_theta_mesh
      \<and> length b_theta_mesh = length r_arr
      \<and> (\<forall>j < length r_arr.
           ((\<forall>i < length r. r_arr ! j \<le> r ! i) \<longrightarrow> b_theta_mesh ! j = a_0 * r_arr ! j)
           \<and> ((\<exists>i < length r. r ! i < r_arr ! j) \<longrightarrow>
                filter (\<lambda>i. r ! i < r_arr ! j) idx \<noteq> []
                \<and> b_theta_mesh ! j =
                    a_i ! last (filter (\<lambda>i. r ! i < r_arr ! j) idx) * r_arr ! j
                    + b_i ! last (filter (\<lambda>i. r ! i < r_arr ! j) idx) / r_arr ! j))"
proof -
  have idx: "idx = argsort r"
    using assms(2) by (auto simp: calculate_ai_bi_def Let_def split: prod.splits)
  have ne: "idx \<noteq> []" using assms(1) idx argsort_nonempty by simp
  have srt: "sorted (map (\<lambda>i. r ! i) idx)" using idx argsort_sorted by simp
  let ?m = "b_theta_probe_loop r idx a_i b_i a_0 r_arr 0"
  have res: "calculate_b_theta r_arr r pr q gamma psi dr_psi dxi_psi b_theta_0 nabla_a = Inr ?m"
    using assms by (simp add: calculate_b_theta_def)
  have "\<forall>j < length r_arr.
           ((\<forall>i < length r. r_arr ! j \<le> r ! i) \<longrightarrow> ?m ! j = a_0 * r_arr ! j)
           \<and> ((\<exists>i < length r. r ! i < r_arr ! j) \<longrightarrow>
                filter (\<lambda>i. r ! i < r_arr ! j) idx \<noteq> []
                \<and> ?m ! j =
                    a_i ! last (filter (\<lambda>i. r ! i < r_arr ! j) idx) * r_arr ! j
                    + b_i ! last (filter (\<lambda>i. r ! i < r_arr ! j) idx) / r_arr ! j)"
  proof (intro allI impI conjI)
    fix j assume j: "j < length r_arr"
    let ?below = "filter (\<lambda>i. r ! i < r_arr ! j) idx"
    note nth = b_theta_probe_loop_nth [OF ne j, of r a_i b_i a_0 0]
    note fi = last_below [OF ne srt, of "r_arr ! j"]
    {
      assume "\<forall>i < length r. r_arr ! j \<le> r ! i"
      then have "?below = []"
        using idx by (auto simp: filter_empty_conv argsort_set)
      then show "?m ! j = a_0 * r_arr ! j"
        using nth fi(1) by simp
    }
    {
      assume "\<exists>i < length r. r ! i < r_arr ! j"
      then show bne: "?below \<noteq> []"
        using idx by (auto simp: filter_empty_conv argsort_set)
      then have "find_i_last r (r_arr ! j) idx 0 0 \<noteq> - 1"
        using fi(1) by simp
      then show "?m ! j = a_i ! last ?below * r_arr ! j + b_i ! last ?below / r_arr ! j"
        using nth fi(2) [OF bne] by simp
    }
  qed
  then show ?thesis
    using res b_theta_probe_loop_length by blast
qed

lemma argsort_example: "argsort [2, 1] = [1, 0]"
  by (simp add: argsort_def upt_rec)

lemma ai_bi_sweep_example:
  "ai_bi_sweep [2, 1] [0, 0] [1, 1] [2, 2] [0, 0] [0, 0] [0, 0] [2, 2] [0, 0]
   = (35 / 16, - (13 / 4), 43 / 32, - (41 / 8), [35 / 16, 3 / 2],
      [- (13 / 4), - (1 / 2)], [43 / 32, 3 / 4], [- (41 / 8), - (7 / 4)])"
  by (simp add: ai_bi_sweep_def argsort_example ai_bi_step_def zeros_def Let_def)

lemma calculate_ai_bi_example:
  "calculate_ai_bi [2, 1] [0, 0] [1, 1] [2, 2] [0, 0] [0, 0] [0, 0] [2, 2] [0, 0]
   = ([0, - (6 / 35)], [- (219 / 70), - (101 / 70)], - (43 / 70), [1, 0])"
  by (simp add: calculate_ai_bi_def ai_bi_sweep_example argsort_example)

theorem calculate_ai_bi_boundary_closure_witness:
  "[2, 1 :: real] \<noteq> [] \<and> (35 / 16 :: real) \<noteq> 0
   \<and> fst (calculate_ai_bi [2, 1] [0, 0] [1, 1] [2, 2] [0, 0] [0, 0] [0, 0] [2, 2] [0, 0]) ! 0 = 0"
  using calculate_ai_bi_boundary_closure [OF _ ai_bi_sweep_example _ calculate_ai_bi_example]
  by (simp add: calculate_ai_bi_example)

text \<open>A number whose multiple by \<open>2 ^ k\<close> lies between \<open>2 ^ 52\<close> and \<open>2 ^ 53\<close> is rounded to a
  multiple of \<open>1 / 2 ^ k\<close>.\<close>

lemma float64_round_scaled:
  assumes "2 ^ 52 \<le> \<bar>x * 2 ^ k\<bar>" and "\<bar>x * 2 ^ k\<bar> < 2 ^ 53"
  shows "float64_round x = of_int (round_half_even (x * 2 ^ k)) / 2 ^ k"
proof -
  have x0: "x \<noteq> 0" using assms(1) by auto
  have pos: "0 < \<bar>x\<bar>" using x0 by simp
  have lo: "2 powr (52 - real k) \<le> \<bar>x\<bar>"
  proof -
    have "2 ^ 52 / 2 ^ k \<le> \<bar>x\<bar>" using assms(1) by (simp add: abs_mult field_simps)
    moreover have "(2::real) powr (52 - real k) = 2 ^ 52 / 2 ^ k"
      by (simp add: powr_diff powr_realpow)
    ultimately show ?thesis by simp
  qed
  have hi: "\<bar>x\<bar> < 2 powr (53 - real k)"
  proof -
    have "\<bar>x\<bar> < 2 ^ 53 / 2 ^ k" using assms(2) by (simp add: abs_mult field_simps)
    moreover have "(2::real) powr (53 - real k) = 2 ^ 53 / 2 ^ k"
      by (simp add: powr_diff powr_realpow)
    ultimately show ?thesis by simp
  qed
  have l1: "52 - real k \<le> log 2 \<bar>x\<bar>" using lo pos by (simp add: le_log_iff)
  have l2: "log 2 \<bar>x\<bar> < 53 - real k" using hi pos by (simp add: log_less_iff)
  have e: "\<lfloor>log 2 \<bar>x\<bar>\<rfloor> = 52 - int k"
    using l1 l2 by (simp add: floor_eq_iff)
  have p: "(2::real) powr - real k = 1 / 2 ^ k"
    by (simp add: powr_minus powr_realpow inverse_eq_divide)
  show ?thesis
    unfolding float64_round_def using x0 by (simp add: e Let_def p)
qed

text \<open>The five roundings of the closing lines for \<open>K_N = 11\<close>, \<open>U_N = - 10\<close>, \<open>T_N = 30\<close>,
  \<open>P_N = - 30\<close>: the quotient \<open>- 30 / 11\<close> is rounded down in magnitude, eleven times the
  rounded quotient is rounded to the binary64 number next to \<open>- 30\<close>, and adding 30 leaves
  the spacing \<open>2 ^ - 48\<close> of the binary64 numbers there.\<close>

lemma float64_quotient_example:
  "float64_round (- 30 / 11) = - 6141272219141585 / 2 ^ 51"
  using float64_round_scaled [of "- 30 / 11" 51]
  by (simp add: round_half_even_def Let_def)

lemma float64_product_K_example:
  "float64_round (11 * (- 6141272219141585 / 2 ^ 51)) = - 8444249301319679 / 2 ^ 48"
  using float64_round_scaled [of "11 * (- 6141272219141585 / 2 ^ 51)" 48]
  by (simp add: round_half_even_def Let_def)

lemma float64_sum_K_example:
  "float64_round (- 8444249301319679 / 2 ^ 48 + 30) = 1 / 2 ^ 48"
  using float64_round_scaled [of "- 8444249301319679 / 2 ^ 48 + 30" 100]
  by (simp add: round_half_even_def Let_def)

lemma float64_product_U_example:
  "float64_round (- 10 * (- 6141272219141585 / 2 ^ 51)) = 7676590273926981 / 2 ^ 48"
  using float64_round_scaled [of "- 10 * (- 6141272219141585 / 2 ^ 51)" 48]
  by (simp add: round_half_even_def Let_def)

lemma float64_sum_U_example:
  "float64_round (7676590273926981 / 2 ^ 48 + - 30) = - 6141272219141592 / 2 ^ 51"
  using float64_round_scaled [of "7676590273926981 / 2 ^ 48 + - 30" 51]
  by (simp add: round_half_even_def Let_def)

lemma ai_bi_sweep_integer_example:
  "ai_bi_sweep [1] [0] [20] [1] [0] [0] [0] [3] [0] = (11, - 10, 30, - 30, [11], [- 10], [30], [- 30])"
  by (simp add: ai_bi_sweep_def argsort_def ai_bi_step_def zeros_def Let_def)

text \<open>
  Claim C4 as stated fails in the arithmetic of the program. For the single particle \<open>r = [1]\<close>,
  \<open>pr = [0]\<close>, \<open>q = [20]\<close>, \<open>gamma = [1]\<close>, \<open>psi = dr_psi = dxi_psi = nabla_a = [0]\<close>,
  \<open>b_theta_0 = [3]\<close> every intermediate value of the sweep is an integer of magnitude at most
  60, so the sweep is the same in binary64 and over the reals and ends in \<open>K_N = 11\<close>,
  \<open>T_N = 30\<close>. Over the reals \<open>a_N\<close> is zero; in binary64 lines 774 to 777 give
  \<open>a_N = 2 ^ - 48\<close>, about \<open>3.55e-15\<close>.
\<close>

theorem calculate_ai_bi_float64_residual_counterexample:
  "ai_bi_sweep [1] [0] [20] [1] [0] [0] [0] [3] [0] = (11, - 10, 30, - 30, [11], [- 10], [30], [- 30])
   \<and> fst (calculate_ai_bi [1] [0] [20] [1] [0] [0] [0] [3] [0]) = [0]
   \<and> calculate_ai_bi_closing_float64 11 30 [11] [- 10] [30] [- 30]
       = ([1 / 2 ^ 48], [- 6141272219141592 / 2 ^ 51], - 6141272219141585 / 2 ^ 51)
   \<and> fst (calculate_ai_bi_closing_float64 11 30 [11] [- 10] [30] [- 30]) ! 0 \<noteq> 0"
proof -
  have closing: "calculate_ai_bi_closing_float64 11 30 [11] [- 10] [30] [- 30]
       = ([1 / 2 ^ 48], [- 6141272219141592 / 2 ^ 51], - 6141272219141585 / 2 ^ 51)"
    by (simp only: calculate_ai_bi_closing_float64_def Let_def float64_quotient_example
        zip_Cons_Cons zip_Nil list.map prod.case float64_product_K_example float64_sum_K_example
        float64_product_U_example float64_sum_U_example)
  have exact: "fst (calculate_ai_bi [1] [0] [20] [1] [0] [0] [0] [3] [0]) = [0]"
    by (simp add: calculate_ai_bi_def ai_bi_sweep_integer_example)
  have "fst (calculate_ai_bi_closing_float64 11 30 [11] [- 10] [30] [- 30]) ! 0 \<noteq> 0"
    unfolding closing by simp
  then show ?thesis
    using closing exact ai_bi_sweep_integer_example by blast
qed

lemma singleton_ai_bi:
  "calculate_ai_bi [1] [0] [1] [2] [0] [0] [0] [2] [0] = ([0], [- (3 / 2)], - (1 / 2), [0])"
  by (simp add: calculate_ai_bi_def ai_bi_sweep_def argsort_def ai_bi_step_def zeros_def Let_def)

text \<open>
  Claim C5 as stated fails at a probe radius equal to the innermost particle radius: the
  radius 1 is not strictly smaller than every particle radius, no particle lies strictly
  below it, and the result is \<open>a_0 * r_j\<close>, which differs from \<open>a_i * r_j + b_i / r_j\<close> for
  the only particle.
\<close>

theorem calculate_b_theta_innermost_counterexample:
  "\<not> ((1::real) < [1] ! 0) \<and> \<not> ([1::real] ! 0 < 1)
   \<and> calculate_ai_bi [1] [0] [1] [2] [0] [0] [0] [2] [0] = ([0], [- (3 / 2)], - (1 / 2), [0])
   \<and> calculate_b_theta [1] [1] [0] [1] [2] [0] [0] [0] [2] [0] = Inr [- (1 / 2) * 1]
   \<and> calculate_b_theta [1] [1] [0] [1] [2] [0] [0] [0] [2] [0] \<noteq> Inr [0 * 1 + (- (3 / 2)) / 1]"
  by (simp add: calculate_b_theta_def singleton_ai_bi)

theorem calculate_b_theta_one_sided_witness:
  "\<exists>m. calculate_b_theta [1 / 2, 3] [2, 1] [0, 0] [1, 1] [2, 2] [0, 0] [0, 0] [0, 0] [2, 2] [0, 0] = Inr m
     \<and> m ! 0 = - (43 / 70) * (1 / 2) \<and> m ! 1 = 0 * 3 + (- (219 / 70)) / 3"
proof -
  obtain m where m:
    "calculate_b_theta [1 / 2, 3] [2, 1] [0, 0] [1, 1] [2, 2] [0, 0] [0, 0] [0, 0] [2, 2] [0, 0] = Inr m"
    "\<forall>j < length [1 / 2, 3 :: real].
       ((\<forall>i < length [2, 1 :: real]. [1 / 2, 3] ! j \<le> [2, 1 :: real] ! i) \<longrightarrow> m ! j = - (43 / 70) * [1 / 2, 3] ! j)
       \<and> ((\<exists>i < length [2, 1 :: real]. [2, 1 :: real] ! i < [1 / 2, 3] ! j) \<longrightarrow>
            filter (\<lambda>i. [2, 1 :: real] ! i < [1 / 2, 3] ! j) [1, 0] \<noteq> []
            \<and> m ! j = [0, - (6 / 35)] ! last (filter (\<lambda>i. [2, 1 :: real] ! i < [1 / 2, 3] ! j) [1, 0]) * [1 / 2, 3] ! j
                 + [- (219 / 70), - (101 / 70)] ! last (filter (\<lambda>i. [2, 1 :: real] ! i < [1 / 2, 3] ! j) [1, 0]) / [1 / 2, 3] ! j)"
    using calculate_b_theta_one_sided [OF _ calculate_ai_bi_example, of "[1 / 2, 3]"] by auto
  have "m ! 0 = - (43 / 70) * (1 / 2)"
    using m(2) [rule_format, of 0] by (simp add: less_Suc_eq)
  moreover have "m ! 1 = 0 * 3 + (- (219 / 70)) / 3"
    using m(2) [rule_format, of 1] by (auto simp add: less_Suc_eq)
  ultimately show ?thesis using m(1) by blast
qed

subsection \<open>The wake potential at probe radii\<close>

lemma sum_list_insort_key:
  "sum_list (map f (insort_key k x xs)) = (f x :: real) + sum_list (map f xs)"
  by (induction xs) simp_all

lemma sum_list_sort_key:
  "sum_list (map f (sort_key k xs)) = (sum_list (map f xs) :: real)"
  by (induction xs) (simp_all add: sum_list_insort_key)

lemma sum_list_argsort:
  "sum_list (map f (argsort r)) = (sum_list (map f [0..<length r]) :: real)"
  by (simp add: argsort_def sum_list_sort_key)

lemma sum_list_filter_zero:
  "\<forall>x\<in>set xs. \<not> P x \<longrightarrow> h x = (0::real) \<Longrightarrow>
   sum_list (map h (filter P xs)) = sum_list (map h xs)"
  by (induction xs) simp_all

lemma sum_list_log_weight:
  "sum_list (map (\<lambda>i. q ! i * (c - ln (r ! i :: real))) xs)
   = c * sum_list (map (\<lambda>i. q ! i) xs) - sum_list (map (\<lambda>i. q ! i * ln (r ! i)) xs)"
proof (induction xs)
  case Nil
  then show ?case by simp
next
  case (Cons x xs)
  have "sum_list (map (\<lambda>i. q ! i * (c - ln (r ! i))) (x # xs))
      = q ! x * (c - ln (r ! x))
        + (c * sum_list (map (\<lambda>i. q ! i) xs) - sum_list (map (\<lambda>i. q ! i * ln (r ! i)) xs))"
    using Cons by simp
  also have "\<dots> = c * (q ! x + sum_list (map (\<lambda>i. q ! i) xs))
      - (q ! x * ln (r ! x) + sum_list (map (\<lambda>i. q ! i * ln (r ! i)) xs))"
    by (simp add: algebra_simps)
  finally show ?case by simp
qed

lemma psi_sums_step_shape:
  "psi_sums_step r q i (a, b, s1, s2, pp) =
    (a + q ! i, b + q ! i * ln (r ! i), s1[i := a + q ! i], s2[i := b + q ! i * ln (r ! i)],
     pp[i := (a + q ! i) * ln (r ! i) - (b + q ! i * ln (r ! i)) - 0.25 * (r ! i)\<^sup>2])"
  by (simp add: psi_sums_step_def Let_def)

lemma psi_sums_fold:
  "distinct xs \<Longrightarrow> \<forall>i\<in>set xs. i < length s1 \<and> i < length s2 \<Longrightarrow>
   fold (psi_sums_step r q) xs (a, b, s1, s2, pp) = (a', b', s1', s2', pp') \<Longrightarrow>
   a' = a + sum_list (map (\<lambda>i. q ! i) xs)
   \<and> b' = b + sum_list (map (\<lambda>i. q ! i * ln (r ! i)) xs)
   \<and> length s1' = length s1 \<and> length s2' = length s2
   \<and> (\<forall>k < length xs.
        s1' ! (xs ! k) = a + sum_list (map (\<lambda>i. q ! i) (take (Suc k) xs))
        \<and> s2' ! (xs ! k) = b + sum_list (map (\<lambda>i. q ! i * ln (r ! i)) (take (Suc k) xs)))"
proof (induction xs arbitrary: a' b' s1' s2' pp' rule: rev_induct)
  case Nil
  then show ?case by simp
next
  case (snoc x xs)
  obtain a1 b1 t1 t2 p1 where mid:
    "fold (psi_sums_step r q) xs (a, b, s1, s2, pp) = (a1, b1, t1, t2, p1)"
    by (metis prod_cases5)
  have dist: "distinct xs" "x \<notin> set xs" using snoc.prems(1) by auto
  have bnd: "\<forall>i\<in>set xs. i < length s1 \<and> i < length s2" "x < length s1" "x < length s2"
    using snoc.prems(2) by auto
  note IH = snoc.IH [OF dist(1) bnd(1) mid]
  have fin: "psi_sums_step r q x (a1, b1, t1, t2, p1) = (a', b', s1', s2', pp')"
    using snoc.prems(3) mid by simp
  then have eqs: "a' = a1 + q ! x" "b' = b1 + q ! x * ln (r ! x)"
    "s1' = t1[x := a']" "s2' = t2[x := b']"
    by (auto simp add: psi_sums_step_shape)
  have "\<forall>k < length (xs @ [x]).
        s1' ! ((xs @ [x]) ! k) = a + sum_list (map (\<lambda>i. q ! i) (take (Suc k) (xs @ [x])))
        \<and> s2' ! ((xs @ [x]) ! k) = b + sum_list (map (\<lambda>i. q ! i * ln (r ! i)) (take (Suc k) (xs @ [x])))"
  proof (intro allI impI)
    fix k assume k: "k < length (xs @ [x])"
    show "s1' ! ((xs @ [x]) ! k) = a + sum_list (map (\<lambda>i. q ! i) (take (Suc k) (xs @ [x])))
        \<and> s2' ! ((xs @ [x]) ! k) = b + sum_list (map (\<lambda>i. q ! i * ln (r ! i)) (take (Suc k) (xs @ [x])))"
    proof (cases "k < length xs")
      case True
      then have "xs ! k \<noteq> x" using dist(2) by (metis nth_mem)
      then show ?thesis
        using True IH eqs(3,4) by (simp add: nth_append)
    next
      case False
      then have "k = length xs" using k by simp
      then show ?thesis
        using IH eqs bnd(2,3) by simp
    qed
  qed
  then show ?case
    using IH eqs by simp
qed

lemma psi_probe_loop_length:
  "length (psi_probe_loop r idx s1 s2 s3 r_arr il) = length r_arr"
  by (induction r_arr arbitrary: il) (simp_all add: Let_def)

lemma psi_probe_loop_nth:
  assumes "idx \<noteq> []"
  shows "j < length r_arr \<Longrightarrow>
    fst (psi_probe_loop r idx s1 s2 s3 r_arr il ! j) =
      (if find_i_last r (r_arr ! j) idx 0 0 = - 1 then - 0.25 * (r_arr ! j)\<^sup>2
       else s1 ! (idx ! nat (find_i_last r (r_arr ! j) idx 0 0)) * ln (r_arr ! j)
            - s2 ! (idx ! nat (find_i_last r (r_arr ! j) idx 0 0)) - 0.25 * (r_arr ! j)\<^sup>2)"
proof (induction r_arr arbitrary: j il)
  case Nil
  then show ?case by simp
next
  case (Cons r_j r_arr)
  have indep: "find_i_last r r_j idx 0 il = find_i_last r r_j idx 0 0"
    using assms by (simp add: find_i_last_takeWhile)
  show ?case
  proof (cases j)
    case 0
    then show ?thesis using indep by (simp add: Let_def)
  next
    case (Suc j')
    then show ?thesis using Cons by (simp add: Let_def)
  qed
qed

text \<open>Beyond the column the uncalibrated probe value is the raw formula with the total sums.\<close>

lemma psi_probe_raw_beyond:
  assumes ne: "r \<noteq> []"
    and sums: "psi_sums r q = (sum_1, sum_2, sum_1_arr, sum_2_arr, psi_part)"
    and beyond: "\<forall>i < length r. r ! i \<le> r_j"
  shows "(if find_i_last r r_j (argsort r) 0 0 = - 1 then - 0.25 * r_j\<^sup>2
       else sum_1_arr ! (argsort r ! nat (find_i_last r r_j (argsort r) 0 0)) * ln r_j
            - sum_2_arr ! (argsort r ! nat (find_i_last r r_j (argsort r) 0 0)) - 0.25 * r_j\<^sup>2)
     = sum_1 * ln r_j - sum_2 - 0.25 * r_j\<^sup>2"
proof -
  let ?idx = "argsort r"
  let ?P = "\<lambda>i. r ! i < r_j"
  let ?F = "\<lambda>i. q ! i" and ?G = "\<lambda>i. q ! i * ln (r ! i)"
  let ?h = "\<lambda>i. q ! i * (ln r_j - ln (r ! i))"
  let ?below = "filter ?P ?idx"
  have idx_ne: "?idx \<noteq> []" using ne by (rule argsort_nonempty)
  have srt: "sorted (map (\<lambda>i. r ! i) ?idx)" by (rule argsort_sorted)
  have fold_eq: "fold (psi_sums_step r q) ?idx (0, 0, zeros (length r), zeros (length r), zeros (length r))
      = (sum_1, sum_2, sum_1_arr, sum_2_arr, psi_part)"
    using sums by (simp add: psi_sums_def)
  have bnd: "\<forall>i\<in>set ?idx. i < length (zeros (length r)) \<and> i < length (zeros (length r))"
    by (simp add: argsort_set zeros_def)
  note F = psi_sums_fold [OF argsort_distinct bnd fold_eq]
  have tot: "sum_1 = sum_list (map ?F ?idx)" "sum_2 = sum_list (map ?G ?idx)"
    using F by simp_all
  have zero: "\<forall>i\<in>set ?idx. \<not> ?P i \<longrightarrow> ?h i = 0"
  proof (intro ballI impI)
    fix i assume "i \<in> set ?idx" "\<not> r ! i < r_j"
    then have "r ! i = r_j" using beyond by (simp add: argsort_set order.antisym)
    then show "?h i = 0" by simp
  qed
  have all: "sum_list (map ?h ?below) = sum_1 * ln r_j - sum_2"
    using sum_list_filter_zero [OF zero] sum_list_log_weight [of q "ln r_j" r ?idx] tot
    by (simp add: mult.commute)
  note fi = last_below [OF idx_ne srt, of r_j]
  show ?thesis
  proof (cases "?below = []")
    case True
    then show ?thesis using fi(1) all by simp
  next
    case False
    let ?k = "length ?below - 1"
    have tw: "takeWhile ?P ?idx = ?below"
      using srt by (rule takeWhile_sorted_filter)
    have klt: "?k < length ?idx"
      using False by (metis diff_less length_filter_le length_greater_0_conv less_le_trans zero_less_one)
    have nat_fi: "nat (find_i_last r r_j ?idx 0 0) = ?k"
      using fi(1) False by (simp add: nat_diff_distrib')
    have "take (Suc ?k) ?idx = take (length (takeWhile ?P ?idx)) ?idx"
      using False tw by simp
    also have "\<dots> = ?below"
      using tw takeWhile_eq_take [of ?P ?idx] by simp
    finally have tk: "take (Suc ?k) ?idx = ?below" .
    have part: "sum_1_arr ! (?idx ! ?k) = sum_list (map ?F ?below)"
      "sum_2_arr ! (?idx ! ?k) = sum_list (map ?G ?below)"
      using F klt tk by simp_all
    have "sum_list (map ?h ?below) = ln r_j * sum_list (map ?F ?below) - sum_list (map ?G ?below)"
      by (rule sum_list_log_weight)
    then have "sum_1_arr ! (?idx ! ?k) * ln r_j - sum_2_arr ! (?idx ! ?k) = sum_1 * ln r_j - sum_2"
      using part all by (simp add: mult.commute)
    moreover have "find_i_last r r_j ?idx 0 0 \<noteq> - 1"
      using fi(1) False by simp
    ultimately show ?thesis
      using nat_fi by simp
  qed
qed

text \<open>
  Claim C3 (amended). For a non-empty column with positive radii whose last-indexed particle
  is an outermost one, the calibrated probe-mode \<open>psi\<close> at a probe radius \<open>r_j\<close> at or beyond
  the outermost radius \<open>r_N\<close> is \<open>(\<Sum>q) * (ln r_j - ln r_N) - (r_j\<^sup>2 - r_N\<^sup>2) / 4\<close>: it vanishes at
  \<open>r_j = r_N\<close> and is not the particle-free value \<open>- r_j\<^sup>2 / 4\<close>.
\<close>

theorem calculate_psi_and_derivatives_beyond_column:
  assumes "r \<noteq> []" and "length q = length r"
    and "\<forall>i < length r. 0 < r ! i"
    and "\<forall>i < length r. r ! i \<le> last r"
    and "j < length r_arr"
    and "\<forall>i < length r. r ! i \<le> r_arr ! j"
  shows "\<exists>psi dr_psi dxi_psi.
      calculate_psi_and_derivatives r_arr r pr q = Inr (psi, dr_psi, dxi_psi)
      \<and> psi ! j = sum_list q * (ln (r_arr ! j) - ln (last r)) - ((r_arr ! j)\<^sup>2 - (last r)\<^sup>2) / 4
      \<and> (r_arr ! j = last r \<longrightarrow> psi ! j = 0)"
proof -
  obtain sum_1 sum_2 sum_1_arr sum_2_arr psi_part where sums:
    "psi_sums r q = (sum_1, sum_2, sum_1_arr, sum_2_arr, psi_part)"
    by (metis prod_cases5)
  let ?idx = "argsort r"
  let ?cal = "sum_1 * ln (last r) - sum_2 - 0.25 * (last r)\<^sup>2"
  let ?pp = "map (\<lambda>p. p + - ?cal) psi_part"
  obtain sum_3 sum_3_arr where s3:
    "fold (sum_3_step r pr q ?pp) ?idx (0, zeros (length r)) = (sum_3, sum_3_arr)"
    by (metis surj_pair)
  let ?vs = "psi_probe_loop r ?idx sum_1_arr sum_2_arr sum_3_arr r_arr 0"
  let ?psi = "map (\<lambda>v. fst v - ?cal) ?vs"
  have res: "calculate_psi_and_derivatives r_arr r pr q
      = Inr (?psi, map (\<lambda>v. fst (snd v)) ?vs, map (\<lambda>v. snd (snd v) + sum_3) ?vs)"
    by (simp only: calculate_psi_and_derivatives_def sums s3 Let_def prod.case assms(1) if_False)
  have idx_ne: "?idx \<noteq> []" using assms(1) by (rule argsort_nonempty)
  have fold_eq: "fold (psi_sums_step r q) ?idx (0, 0, zeros (length r), zeros (length r), zeros (length r))
      = (sum_1, sum_2, sum_1_arr, sum_2_arr, psi_part)"
    using sums by (simp add: psi_sums_def)
  have bnd: "\<forall>i\<in>set ?idx. i < length (zeros (length r)) \<and> i < length (zeros (length r))"
    by (simp add: argsort_set zeros_def)
  have "sum_1 = sum_list (map (\<lambda>i. q ! i) ?idx)"
    using psi_sums_fold [OF argsort_distinct bnd fold_eq] by simp
  also have "\<dots> = sum_list (map (\<lambda>i. q ! i) [0..<length q])"
    using assms(2) by (simp add: sum_list_argsort)
  also have "\<dots> = sum_list q"
    by (simp add: map_nth)
  finally have s1: "sum_1 = sum_list q" .
  have raw: "fst (?vs ! j) = sum_1 * ln (r_arr ! j) - sum_2 - 0.25 * (r_arr ! j)\<^sup>2"
    using psi_probe_loop_nth [OF idx_ne assms(5), of r sum_1_arr sum_2_arr sum_3_arr 0]
      psi_probe_raw_beyond [OF assms(1) sums assms(6)] by simp
  have e1: "?psi ! j = fst (?vs ! j) - ?cal"
    using assms(5) by (simp add: psi_probe_loop_length)
  have val: "?psi ! j = sum_list q * (ln (r_arr ! j) - ln (last r)) - ((r_arr ! j)\<^sup>2 - (last r)\<^sup>2) / 4"
    unfolding e1 raw by (simp add: s1 algebra_simps diff_divide_distrib)
  then have "r_arr ! j = last r \<longrightarrow> ?psi ! j = 0" by simp
  then show ?thesis using res val by blast
qed

lemma ln_two_bound: "(3::real) / 4 < 2 * ln 2"
proof -
  have "exp (1::real) \<le> 3" by (rule exp_le)
  then have "exp (1::real) < 4" by simp
  then have "ln (exp (1::real)) < ln 4" by (subst ln_less_cancel_iff) simp_all
  then have "1 < ln (4::real)" by simp
  moreover have "ln (4::real) = 2 * ln 2"
    using ln_realpow [of 2 2] by simp
  ultimately show ?thesis by simp
qed

text \<open>
  Claim C2. The offset subtracted from \<open>psi\<close> is the raw formula at \<open>r[-1]\<close>, the particle of
  largest index, in both computations. For the column \<open>r = [2, 1]\<close>, \<open>q = [1, 1]\<close> it is
  \<open>- ln 2 - 1/4\<close>, the raw formula at radius 1, and not the value \<open>ln 2 - 1\<close> that the raw
  formula takes at the outermost radius 2.
\<close>

theorem psi_calibration_last_index_example:
  "psi_calibration_at_particles [2, 1] [1, 1] = - ln 2 - 1 / 4
   \<and> psi_calibration [2, 1] [1, 1] = - ln 2 - 1 / 4
   \<and> (1 + 1) * ln (2::real) - (1 * ln 2 + 1 * ln 1) - 2\<^sup>2 / 4 \<noteq> - ln 2 - 1 / 4"
proof -
  have "psi_calibration_at_particles [2, 1] [1, 1] = - ln 2 - 1 / 4"
    by (simp add: psi_calibration_at_particles_def psi_at_particles_sums_def argsort_example
        psi_at_particles_step_def zeros_def Let_def)
  moreover have "psi_calibration [2, 1] [1, 1] = - ln 2 - 1 / 4"
    by (simp add: psi_calibration_def psi_sums_def argsort_example
        psi_sums_step_def zeros_def Let_def)
  moreover have "(1 + 1) * ln (2::real) - (1 * ln 2 + 1 * ln 1) - 2\<^sup>2 / 4 \<noteq> - ln 2 - 1 / 4"
    using ln_two_bound by simp
  ultimately show ?thesis by blast
qed

text \<open>
  Claim C3 as stated fails for the single particle \<open>r = [1]\<close>, \<open>q = [1]\<close>: the calibrated
  \<open>psi\<close> at the probe radii 1 and 2 is 0 and \<open>ln 2 - 3/4\<close>, not \<open>- 1/4\<close> and \<open>- 1\<close>.
\<close>

theorem calculate_psi_and_derivatives_vacuum_counterexample:
  "calculate_psi_and_derivatives [1, 2] [1] [0] [1] = Inr ([0, ln 2 - 3 / 4], [- (1 / 2), - (1 / 2)], [0, 0])
   \<and> (0::real) \<noteq> - (1\<^sup>2) / 4 \<and> ln (2::real) - 3 / 4 \<noteq> - (2\<^sup>2) / 4"
proof -
  have "calculate_psi_and_derivatives [1, 2] [1] [0] [1]
      = Inr ([0, ln 2 - 3 / 4], [- (1 / 2), - (1 / 2)], [0, 0])"
    by (simp add: calculate_psi_and_derivatives_def psi_sums_def argsort_def
        psi_sums_step_def sum_3_step_def zeros_def Let_def)
  moreover have "ln (2::real) - 3 / 4 \<noteq> - (2\<^sup>2) / 4"
    using ln_two_bound by simp
  ultimately show ?thesis by simp
qed

theorem calculate_psi_and_derivatives_beyond_column_witness:
  "\<exists>psi dr_psi dxi_psi.
      calculate_psi_and_derivatives [2, 3] [1, 2] [0, 0] [1, 1] = Inr (psi, dr_psi, dxi_psi)
      \<and> psi ! 0 = 0 \<and> psi ! 1 = 2 * (ln 3 - ln 2) - 5 / 4"
proof -
  have h: "[1, 2 :: real] \<noteq> []" "length [1, 1 :: real] = length [1, 2 :: real]"
    "\<forall>i < length [1, 2 :: real]. 0 < [1, 2 :: real] ! i"
    "\<forall>i < length [1, 2 :: real]. [1, 2 :: real] ! i \<le> last [1, 2]"
    by (simp_all add: less_Suc_eq)
  have j0: "0 < length [2, 3 :: real]" "\<forall>i < length [1, 2 :: real]. [1, 2 :: real] ! i \<le> [2, 3] ! 0"
    by (simp_all add: less_Suc_eq)
  have j1: "1 < length [2, 3 :: real]" "\<forall>i < length [1, 2 :: real]. [1, 2 :: real] ! i \<le> [2, 3] ! 1"
    by (simp_all add: less_Suc_eq)
  show ?thesis
    using calculate_psi_and_derivatives_beyond_column [OF h j0, of "[0, 0]"]
      calculate_psi_and_derivatives_beyond_column [OF h j1, of "[0, 0]"]
    by auto
qed

section \<open>Properties of the motion integrator\<close>

text \<open>
  Claim C1. The Lorentz factor of \<open>calculate_derivatives\<close> has the laser term \<open>a2\<close> with
  coefficient 1; that of \<open>calculate_fields\<close> has \<open>a2 / 2\<close>. For a particle with \<open>pr = 0\<close>,
  \<open>psi = 0\<close> and \<open>a2 = 2\<close> the first gives 2, the value of the formula of the claim, and
  the second gives \<open>3/2\<close>.
\<close>

theorem lorentz_factor_sites_example:
  "calculate_derivatives_gamma 1 [0] [2] [0] = [2]
   \<and> calculate_fields_gamma [0] [2] [0] = [3 / 2]
   \<and> (1 + 0\<^sup>2 + 2 + (1 + 0)\<^sup>2) / (2 * (1 + 0)) = (2::real)"
  by (simp add: calculate_derivatives_gamma_def calculate_fields_gamma_def)

lemma fold_negate_length:
  "length (fold (\<lambda>i x. x[i := - x ! i]) js (xs :: real list)) = length xs"
  by (induction js arbitrary: xs) simp_all

lemma fold_negate_nth:
  "distinct js \<Longrightarrow>
   fold (\<lambda>i x. x[i := - x ! i]) js (xs :: real list) ! j
     = (if j \<in> set js \<and> j < length xs then - (xs ! j) else xs ! j)"
proof (induction js arbitrary: xs)
  case Nil
  then show ?case by simp
next
  case (Cons i js)
  have d: "distinct js" "i \<notin> set js" using Cons.prems by auto
  note IH = Cons.IH [OF d(1), of "xs[i := - xs ! i]"]
  show ?case
  proof (cases "j = i")
    case True
    then have "j \<notin> set js" using d(2) by simp
    then show ?thesis using IH True by (cases "i < length xs") (simp_all add: list_update_beyond)
  next
    case False
    then show ?thesis using IH by simp
  qed
qed

lemma invert_negative_length:
  "invert_negative r pr = (r', pr') \<Longrightarrow> length r' = length r \<and> length pr' = length pr"
  by (auto simp: invert_negative_def Let_def fold_negate_length split: if_splits)

lemma invert_negative_nth:
  assumes "invert_negative r pr = (r', pr')" "length pr = length r" "i < length r"
  shows "r' ! i = (if r ! i < 0 then - (r ! i) else r ! i)"
    and "pr' ! i = (if r ! i < 0 then - (pr ! i) else pr ! i)"
proof -
  let ?neg = "filter (\<lambda>i. r ! i < 0) [0..<length r]"
  have d: "distinct ?neg" by simp
  have mem: "i \<in> set ?neg \<longleftrightarrow> r ! i < 0" using assms(3) by simp
  show "r' ! i = (if r ! i < 0 then - (r ! i) else r ! i)"
  proof (cases "?neg = []")
    case True
    then have "r' = r" using assms(1) by (simp add: invert_negative_def)
    moreover have "\<not> r ! i < 0" using True mem by simp
    ultimately show ?thesis by simp
  next
    case False
    then have "r' = fold (\<lambda>i x. x[i := - x ! i]) ?neg r"
      using assms(1) by (simp add: invert_negative_def Let_def)
    then show ?thesis
      using fold_negate_nth [OF d, of r i] mem assms(3) by simp
  qed
  show "pr' ! i = (if r ! i < 0 then - (pr ! i) else pr ! i)"
  proof (cases "?neg = []")
    case True
    then have "pr' = pr" using assms(1) by (simp add: invert_negative_def)
    moreover have "\<not> r ! i < 0" using True mem by simp
    ultimately show ?thesis by simp
  next
    case False
    then have "pr' = fold (\<lambda>i x. x[i := - x ! i]) ?neg pr"
      using assms(1) by (simp add: invert_negative_def Let_def)
    then show ?thesis
      using fold_negate_nth [OF d, of pr i] mem assms(2,3) by simp
  qed
qed

lemma rk4_fold_nth:
  "fold (rk4_push_step c Ar Br Cr Dr Apr Bpr Cpr Dpr) [0..<n] (r, pr) = (r1, pr1) \<Longrightarrow>
   length r1 = length r \<and> length pr1 = length pr
   \<and> (\<forall>i < length r. r1 ! i = (if i < n
                    then r ! i + (Ar ! i + 2 * (Br ! i + Cr ! i) + Dr ! i) * c else r ! i))
   \<and> (\<forall>i < length pr. pr1 ! i = (if i < n
                    then pr ! i + (Apr ! i + 2 * (Bpr ! i + Cpr ! i) + Dpr ! i) * c else pr ! i))"
proof (induction n arbitrary: r1 pr1)
  case 0
  then show ?case by simp
next
  case (Suc n)
  obtain r0 pr0 where mid:
    "fold (rk4_push_step c Ar Br Cr Dr Apr Bpr Cpr Dpr) [0..<n] (r, pr) = (r0, pr0)"
    by (metis surj_pair)
  note IH = Suc.IH [OF mid]
  have fin: "rk4_push_step c Ar Br Cr Dr Apr Bpr Cpr Dpr n (r0, pr0) = (r1, pr1)"
    using Suc.prems mid by simp
  then have eqs: "r1 = r0[n := r0 ! n + (Ar ! n + 2 * (Br ! n + Cr ! n) + Dr ! n) * c]"
    "pr1 = pr0[n := pr0 ! n + (Apr ! n + 2 * (Bpr ! n + Cpr ! n) + Dpr ! n) * c]"
    by (auto simp: rk4_push_step_def)
  show ?case
    using IH eqs by (auto simp: nth_list_update less_Suc_eq)
qed

text \<open>
  Claim C8. Let \<open>(r', pr')\<close> be the reflection of \<open>(r, pr)\<close>. A particle with \<open>r < 0\<close> gets
  \<open>r' = - r \<ge> 0\<close> and \<open>pr' = - pr\<close>, so the sign of \<open>pr\<close> flips and both absolute values are
  kept; a particle with \<open>r \<ge> 0\<close> is unchanged. Both sites apply it: the evaluator of the
  equations of motion works on \<open>(r', pr')\<close>, and the Runge-Kutta update returns \<open>(r', pr')\<close>
  when \<open>(r, pr)\<close> is the state after the combination.
\<close>

theorem reflection_invariant:
  assumes "length pr = length r" and "invert_negative r pr = (r', pr')"
  shows "length r' = length r \<and> length pr' = length pr
    \<and> (\<forall>i < length r.
          (r ! i < 0 \<longrightarrow>
             0 \<le> r' ! i \<and> r' ! i = - (r ! i) \<and> pr' ! i = - (pr ! i)
             \<and> sgn (pr' ! i) = - sgn (pr ! i)
             \<and> \<bar>r' ! i\<bar> = \<bar>r ! i\<bar> \<and> \<bar>pr' ! i\<bar> = \<bar>pr ! i\<bar>)
          \<and> (0 \<le> r ! i \<longrightarrow> r' ! i = r ! i \<and> pr' ! i = pr ! i))
    \<and> motion_derivatives ct dxi xi r pr q laser_params beam_source s_d
        = (case laser_sources ct xi r' laser_params s_d of
             (nabla_a, a2) \<Rightarrow>
               (case beam_source of
                  None \<Rightarrow> Inl TypeError
                | Some f \<Rightarrow> calculate_derivatives dxi r' pr' q (f r' xi) nabla_a a2))
    \<and> (fold (rk4_push_step (1 / 6) Ar Br Cr Dr Apr Bpr Cpr Dpr) [0..<length r0] (r0, pr0) = (r, pr)
         \<longrightarrow> update_particles_rk4 r0 pr0 Ar Br Cr Dr Apr Bpr Cpr Dpr = (r', pr'))"
proof -
  have len: "length r' = length r \<and> length pr' = length pr"
    using invert_negative_length [OF assms(2)] .
  have elt: "\<forall>i < length r.
          (r ! i < 0 \<longrightarrow>
             0 \<le> r' ! i \<and> r' ! i = - (r ! i) \<and> pr' ! i = - (pr ! i)
             \<and> sgn (pr' ! i) = - sgn (pr ! i)
             \<and> \<bar>r' ! i\<bar> = \<bar>r ! i\<bar> \<and> \<bar>pr' ! i\<bar> = \<bar>pr ! i\<bar>)
          \<and> (0 \<le> r ! i \<longrightarrow> r' ! i = r ! i \<and> pr' ! i = pr ! i)"
  proof (intro allI impI)
    fix i assume i: "i < length r"
    note n = invert_negative_nth [OF assms(2,1) i]
    show "(r ! i < 0 \<longrightarrow>
             0 \<le> r' ! i \<and> r' ! i = - (r ! i) \<and> pr' ! i = - (pr ! i)
             \<and> sgn (pr' ! i) = - sgn (pr ! i)
             \<and> \<bar>r' ! i\<bar> = \<bar>r ! i\<bar> \<and> \<bar>pr' ! i\<bar> = \<bar>pr ! i\<bar>)
          \<and> (0 \<le> r ! i \<longrightarrow> r' ! i = r ! i \<and> pr' ! i = pr ! i)"
      using n by (simp add: sgn_minus)
  qed
  have site1: "motion_derivatives ct dxi xi r pr q laser_params beam_source s_d
        = (case laser_sources ct xi r' laser_params s_d of
             (nabla_a, a2) \<Rightarrow>
               (case beam_source of
                  None \<Rightarrow> Inl TypeError
                | Some f \<Rightarrow> calculate_derivatives dxi r' pr' q (f r' xi) nabla_a a2))"
    by (simp only: motion_derivatives_def assms(2) prod.case)
  have site2: "fold (rk4_push_step (1 / 6) Ar Br Cr Dr Apr Bpr Cpr Dpr) [0..<length r0] (r0, pr0) = (r, pr)
         \<longrightarrow> update_particles_rk4 r0 pr0 Ar Br Cr Dr Apr Bpr Cpr Dpr = (r', pr')"
    using assms(2) by (simp add: update_particles_rk4_def)
  show ?thesis
    using len elt site1 site2 by blast
qed

lemma invert_negative_example: "invert_negative [- 1, 2] [3, 4] = ([1, 2], [- 3, 4])"
  by (simp add: invert_negative_def upt_rec)

theorem reflection_invariant_witness:
  "length [3, 4 :: real] = length [- 1, 2 :: real]
   \<and> invert_negative [- 1, 2] [3, 4] = ([1, 2], [- 3, 4])
   \<and> sgn ([- 3, 4 :: real] ! 0) = - sgn ([3, 4 :: real] ! 0)
   \<and> \<bar>[1, 2 :: real] ! 0\<bar> = \<bar>[- 1, 2 :: real] ! 0\<bar>
   \<and> [1, 2 :: real] ! 1 = [- 1, 2] ! 1"
  using reflection_invariant [OF _ invert_negative_example]
  by (simp add: invert_negative_example)

lemma calculate_derivatives_length:
  "calculate_derivatives dxi r pr q b_theta_0 nabla_a a2 = Inr (dr, dpr) \<Longrightarrow>
   length dr = length r \<and> length dpr = length r"
  by (auto simp: calculate_derivatives_def Let_def split: sum.splits prod.splits)

lemma motion_derivatives_length:
  assumes "motion_derivatives ct dxi xi r pr q laser_params beam_source s_d = Inr (dr, dpr)"
  shows "length dr = length r \<and> length dpr = length r"
proof -
  obtain r' pr' where inv: "invert_negative r pr = (r', pr')" by (metis surj_pair)
  have "length r' = length r" using invert_negative_length [OF inv] by simp
  moreover have "length dr = length r' \<and> length dpr = length r'"
    using assms inv
    by (auto simp: motion_derivatives_def dest: calculate_derivatives_length
        split: prod.splits option.splits)
  ultimately show ?thesis by simp
qed

text \<open>
  Claim C7. With \<open>(k1, k1')\<close>, \<open>(k2, k2')\<close>, \<open>(k3, k3')\<close>, \<open>(k4, k4')\<close> the results of the
  evaluator at \<open>(xi, r, pr)\<close>, \<open>(xi - dxi/2, r + k1/2, pr + k1'/2)\<close>,
  \<open>(xi - dxi/2, r + k2/2, pr + k2'/2)\<close> and \<open>(xi - dxi, r + k3, pr + k3')\<close>, one step returns,
  for each particle, \<open>r + (k1 + 2 k2 + 2 k3 + k4) / 6\<close> and \<open>pr + (k1' + 2 k2' + 2 k3' + k4') / 6\<close>,
  both negated when the new radius is negative.
\<close>

theorem evolve_plasma_rk4:
  assumes "length pr = length r"
    and "motion_derivatives ct dxi xi r pr q laser_params beam_source s_d = Inr (k1, k1')"
    and "motion_derivatives ct dxi (xi - dxi / 2)
           (map2 (\<lambda>x k. x + k / 2) r k1) (map2 (\<lambda>x k. x + k / 2) pr k1') q
           laser_params beam_source s_d = Inr (k2, k2')"
    and "motion_derivatives ct dxi (xi - dxi / 2)
           (map2 (\<lambda>x k. x + k / 2) r k2) (map2 (\<lambda>x k. x + k / 2) pr k2') q
           laser_params beam_source s_d = Inr (k3, k3')"
    and "motion_derivatives ct dxi (xi - dxi)
           (map2 (\<lambda>x k. x + k) r k3) (map2 (\<lambda>x k. x + k) pr k3') q
           laser_params beam_source s_d = Inr (k4, k4')"
  shows "\<exists>r_new pr_new.
      evolve_plasma ct r pr q xi dxi laser_params beam_source s_d = Inr (r_new, pr_new)
      \<and> length r_new = length r \<and> length pr_new = length r
      \<and> length k1 = length r \<and> length k2 = length r \<and> length k3 = length r \<and> length k4 = length r
      \<and> (\<forall>i < length r.
           r_new ! i =
             (if r ! i + (k1 ! i + 2 * k2 ! i + 2 * k3 ! i + k4 ! i) / 6 < 0
              then - (r ! i + (k1 ! i + 2 * k2 ! i + 2 * k3 ! i + k4 ! i) / 6)
              else r ! i + (k1 ! i + 2 * k2 ! i + 2 * k3 ! i + k4 ! i) / 6)
           \<and> pr_new ! i =
             (if r ! i + (k1 ! i + 2 * k2 ! i + 2 * k3 ! i + k4 ! i) / 6 < 0
              then - (pr ! i + (k1' ! i + 2 * k2' ! i + 2 * k3' ! i + k4' ! i) / 6)
              else pr ! i + (k1' ! i + 2 * k2' ! i + 2 * k3' ! i + k4' ! i) / 6))"
proof -
  obtain r1 pr1 where push:
    "fold (rk4_push_step (1 / 6) k1 k2 k3 k4 k1' k2' k3' k4') [0..<length r] (r, pr) = (r1, pr1)"
    by (metis surj_pair)
  obtain r_new pr_new where refl: "invert_negative r1 pr1 = (r_new, pr_new)"
    by (metis surj_pair)
  have upd: "update_particles_rk4 r pr k1 k2 k3 k4 k1' k2' k3' k4' = (r_new, pr_new)"
    using push refl by (simp add: update_particles_rk4_def)
  have res: "evolve_plasma ct r pr q xi dxi laser_params beam_source s_d = Inr (r_new, pr_new)"
    by (simp only: evolve_plasma_def assms(2-5) upd sum.case prod.case)
  note P = rk4_fold_nth [OF push]
  have len1: "length r1 = length r" "length pr1 = length r"
    using P assms(1) by simp_all
  have lens: "length r_new = length r" "length pr_new = length r"
    using invert_negative_length [OF refl] len1 by simp_all
  have klen: "length k1 = length r" "length k2 = length r" "length k3 = length r" "length k4 = length r"
    using motion_derivatives_length [OF assms(2)] motion_derivatives_length [OF assms(3)]
      motion_derivatives_length [OF assms(4)] motion_derivatives_length [OF assms(5)]
    by simp_all
  have elt: "\<forall>i < length r.
           r_new ! i =
             (if r ! i + (k1 ! i + 2 * k2 ! i + 2 * k3 ! i + k4 ! i) / 6 < 0
              then - (r ! i + (k1 ! i + 2 * k2 ! i + 2 * k3 ! i + k4 ! i) / 6)
              else r ! i + (k1 ! i + 2 * k2 ! i + 2 * k3 ! i + k4 ! i) / 6)
           \<and> pr_new ! i =
             (if r ! i + (k1 ! i + 2 * k2 ! i + 2 * k3 ! i + k4 ! i) / 6 < 0
              then - (pr ! i + (k1' ! i + 2 * k2' ! i + 2 * k3' ! i + k4' ! i) / 6)
              else pr ! i + (k1' ! i + 2 * k2' ! i + 2 * k3' ! i + k4' ! i) / 6)"
  proof (intro allI impI)
    fix i assume i: "i < length r"
    have i1: "i < length r1" using i len1 by simp
    have a: "r1 ! i = r ! i + (k1 ! i + 2 * k2 ! i + 2 * k3 ! i + k4 ! i) / 6"
      using P i by simp
    have b: "pr1 ! i = pr ! i + (k1' ! i + 2 * k2' ! i + 2 * k3' ! i + k4' ! i) / 6"
      using P i assms(1) by simp
    have "length pr1 = length r1" using len1 by simp
    note n = invert_negative_nth [OF refl this i1]
    show "r_new ! i =
             (if r ! i + (k1 ! i + 2 * k2 ! i + 2 * k3 ! i + k4 ! i) / 6 < 0
              then - (r ! i + (k1 ! i + 2 * k2 ! i + 2 * k3 ! i + k4 ! i) / 6)
              else r ! i + (k1 ! i + 2 * k2 ! i + 2 * k3 ! i + k4 ! i) / 6)
           \<and> pr_new ! i =
             (if r ! i + (k1 ! i + 2 * k2 ! i + 2 * k3 ! i + k4 ! i) / 6 < 0
              then - (pr ! i + (k1' ! i + 2 * k2' ! i + 2 * k3' ! i + k4' ! i) / 6)
              else pr ! i + (k1' ! i + 2 * k2' ! i + 2 * k3' ! i + k4' ! i) / 6)"
      unfolding n a b by simp
  qed
  show ?thesis
    using res lens klen elt by blast
qed

lemma psi_single:
  "calculate_psi_and_derivatives_at_particles [x] [p] [c] = Inr ([0], [c / 2 / x - x / 2], [c * p / x / 2])"
  by (simp add: calculate_psi_and_derivatives_at_particles_def psi_at_particles_sums_def argsort_def
      psi_at_particles_step_def dxi_psi_at_particles_step_def zeros_def Let_def algebra_simps)

lemmas single_particle_eval = motion_derivatives_def invert_negative_def laser_sources_def
      calculate_derivatives_def psi_single calculate_derivatives_gamma_def
      calculate_b_theta_at_particles_def calculate_ai_bi_def ai_bi_sweep_def argsort_def
      ai_bi_step_def b_theta_avg_step_def zeros_def Let_def

lemma stage_1_example:
  "motion_derivatives ct 1 0 [1] [0] [1] None (Some (\<lambda>rs x. map (\<lambda>_. 3) rs)) 1
   = Inr ([0], [- 2])"
  by (simp add: single_particle_eval)

lemma stage_2_example:
  "motion_derivatives ct 1 (0 - 1 / 2)
     (map2 (\<lambda>x k. x + k / 2) [1] [0]) (map2 (\<lambda>x k. x + k / 2) [0] [- 2]) [1]
     None (Some (\<lambda>rs x. map (\<lambda>_. 3) rs)) 1
   = Inr ([- 1], [- (5 / 3)])"
  by (simp add: single_particle_eval)

lemma stage_3_example:
  "motion_derivatives ct 1 (0 - 1 / 2)
     (map2 (\<lambda>x k. x + k / 2) [1] [- 1]) (map2 (\<lambda>x k. x + k / 2) [0] [- (5 / 3)]) [1]
     None (Some (\<lambda>rs x. map (\<lambda>_. 3) rs)) 1
   = Inr ([- (5 / 6)], [- (149 / 216)])"
  by (simp add: single_particle_eval power2_eq_square power3_eq_cube)

lemma stage_4_example:
  "motion_derivatives ct 1 (0 - 1)
     (map2 (\<lambda>x k. x + k) [1] [- (5 / 6)]) (map2 (\<lambda>x k. x + k) [0] [- (149 / 216)]) [1]
     None (Some (\<lambda>rs x. map (\<lambda>_. 3) rs)) 1
   = Inr ([- (149 / 216)], [1529615 / 839808])"
  by (simp add: single_particle_eval power2_eq_square power3_eq_cube)

theorem evolve_plasma_rk4_witness:
  "\<exists>r_new pr_new.
     evolve_plasma \<lparr>ct_c = 299792458, ct_e = 1, ct_m_e = 1\<rparr> [1] [0] [1] 0 1 None
       (Some (\<lambda>rs x. map (\<lambda>_. 3) rs)) 1 = Inr (r_new, pr_new)
     \<and> r_new ! 0 = 355 / 1296 \<and> pr_new ! 0 = - (4107985 / 5038848)"
  using evolve_plasma_rk4 [OF _ stage_1_example stage_2_example stage_3_example stage_4_example,
      of "\<lparr>ct_c = 299792458, ct_e = 1, ct_m_e = 1\<rparr>"]
  by auto

section \<open>Properties of the driver\<close>

lemma map_nth_filter_nths:
  "map (\<lambda>i. ys ! i) (filter P [0..<length ys]) = nths ys {i. P i}"
proof (induction ys rule: rev_induct)
  case Nil
  then show ?case by simp
next
  case (snoc y ys)
  have "map (\<lambda>i. (ys @ [y]) ! i) (filter P [0..<length ys])
        = map (\<lambda>i. ys ! i) (filter P [0..<length ys])"
    by (rule map_cong) (auto simp: nth_append)
  then show ?case
    using snoc by (simp add: nths_append)
qed

lemma map_nth_filter_self:
  "map (\<lambda>i. xs ! i) (filter (\<lambda>i. P (xs ! i)) [0..<length xs]) = filter P xs"
proof (induction xs rule: rev_induct)
  case Nil
  then show ?case by simp
next
  case (snoc x xs)
  have f: "filter (\<lambda>i. P ((xs @ [x]) ! i)) [0..<length xs] = filter (\<lambda>i. P (xs ! i)) [0..<length xs]"
    by (rule filter_cong) (auto simp: nth_append)
  have "map (\<lambda>i. (xs @ [x]) ! i) (filter (\<lambda>i. P (xs ! i)) [0..<length xs])
        = map (\<lambda>i. xs ! i) (filter (\<lambda>i. P (xs ! i)) [0..<length xs])"
    by (rule map_cong) (auto simp: nth_append)
  then show ?case
    using snoc f by simp
qed

lemma update_particles_rk4_length:
  assumes "update_particles_rk4 r pr Ar Br Cr Dr Apr Bpr Cpr Dpr = (r', pr')"
  shows "length r' = length r \<and> length pr' = length pr"
proof -
  obtain r1 pr1 where push:
    "fold (rk4_push_step (1 / 6) Ar Br Cr Dr Apr Bpr Cpr Dpr) [0..<length r] (r, pr) = (r1, pr1)"
    by (metis surj_pair)
  have "invert_negative r1 pr1 = (r', pr')"
    using assms push by (simp add: update_particles_rk4_def)
  then show ?thesis
    using invert_negative_length rk4_fold_nth [OF push] by fastforce
qed

lemma evolve_plasma_length:
  assumes "evolve_plasma ct r pr q xi dxi laser_params beam_source s_d = Inr (r', pr')"
  shows "length r' = length r \<and> length pr' = length pr"
  using assms
  by (auto simp: evolve_plasma_def split: sum.splits prod.splits dest: update_particles_rk4_length)

text \<open>The column after one pass through the loop body, whenever the pass raises nothing.\<close>

lemma xi_step_column:
  assumes "evolve_plasma (env_ct env) (col_r st) (col_pr st) (col_q st)
             (env_xi_max env - env_dxi env * real step) (env_dxi env)
             (env_laser_params env) (env_beam_source env) (env_s_d env) = Inr (r1, pr1)"
    and "xi_step env step st = Inr res"
  shows "col_r (result_state res)
           = map (\<lambda>i. r1 ! i) (filter (\<lambda>i. r1 ! i \<le> env_r_max env + 0.1) [0..<length r1])"
    and "col_pr (result_state res)
           = map (\<lambda>i. pr1 ! i) (filter (\<lambda>i. r1 ! i \<le> env_r_max env + 0.1) [0..<length r1])"
    and "col_gamma (result_state res)
           = map (\<lambda>i. col_gamma st ! i) (filter (\<lambda>i. r1 ! i \<le> env_r_max env + 0.1) [0..<length r1])"
    and "col_q (result_state res)
           = map (\<lambda>i. col_q st ! i) (filter (\<lambda>i. r1 ! i \<le> env_r_max env + 0.1) [0..<length r1])"
  using assms(2) unfolding xi_step_def assms(1) Let_def
  by (auto split: sum.splits prod.splits if_splits)

lemma xi_step_break:
  assumes "evolve_plasma (env_ct env) (col_r st) (col_pr st) (col_q st)
             (env_xi_max env - env_dxi env * real step) (env_dxi env)
             (env_laser_params env) (env_beam_source env) (env_s_d env) = Inr (r1, pr1)"
    and "\<forall>x\<in>set r1. env_r_max env + 0.1 < x"
  shows "xi_step env step st
         = Inr (Break (st\<lparr>col_r := [], col_pr := [], col_gamma := [], col_q := []\<rparr>))"
proof -
  have "filter (\<lambda>i. r1 ! i \<le> env_r_max env + 0.1) [0..<length r1] = []"
    using assms(2) nth_mem by (fastforce simp: filter_empty_conv)
  then show ?thesis
    unfolding xi_step_def assms(1) Let_def by simp
qed




text \<open>Later passes only remove particles.\<close>

lemma xi_step_shrinks:
  assumes "length (col_pr st) = length (col_r st)" "length (col_gamma st) = length (col_r st)"
    "length (col_q st) = length (col_r st)"
    and "xi_step env step st = Inr res"
  shows "length (col_pr (result_state res)) = length (col_r (result_state res))
       \<and> length (col_gamma (result_state res)) = length (col_r (result_state res))
       \<and> length (col_q (result_state res)) = length (col_r (result_state res))
       \<and> subseq (col_q (result_state res)) (col_q st)
       \<and> length (col_r (result_state res)) \<le> length (col_r st)"
proof -
  from assms(4) obtain r1 pr1 where ev:
    "evolve_plasma (env_ct env) (col_r st) (col_pr st) (col_q st)
       (env_xi_max env - env_dxi env * real step) (env_dxi env)
       (env_laser_params env) (env_beam_source env) (env_s_d env) = Inr (r1, pr1)"
    unfolding xi_step_def Let_def by (auto split: sum.splits)
  note col = xi_step_column [OF ev assms(4)]
  have len: "length r1 = length (col_r st)"
    using evolve_plasma_length [OF ev] by simp
  let ?keep = "filter (\<lambda>i. r1 ! i \<le> env_r_max env + 0.1) [0..<length r1]"
  have "col_q (result_state res) = map (\<lambda>i. col_q st ! i) (filter (\<lambda>i. r1 ! i \<le> env_r_max env + 0.1) [0..<length (col_q st)])"
    using col(4) len assms(3) by simp
  then have "col_q (result_state res) = nths (col_q st) {i. r1 ! i \<le> env_r_max env + 0.1}"
    by (simp only: map_nth_filter_nths)
  then have sub: "subseq (col_q (result_state res)) (col_q st)"
    using subseq_conv_nths by blast
  have "length ?keep \<le> length [0..<length r1]" by (rule length_filter_le)
  then have "length (col_r (result_state res)) \<le> length (col_r st)"
    using col(1) len by simp
  then show ?thesis using col sub by simp
qed

lemma xi_loop_shrinks:
  "xi_loop env steps st = Inr res \<Longrightarrow>
   length (col_pr st) = length (col_r st) \<Longrightarrow> length (col_gamma st) = length (col_r st) \<Longrightarrow>
   length (col_q st) = length (col_r st) \<Longrightarrow>
   subseq (col_q (result_state res)) (col_q st)
   \<and> length (col_r (result_state res)) \<le> length (col_r st)"
proof (induction steps arbitrary: st)
  case Nil
  then show ?case by auto
next
  case (Cons step steps)
  from Cons.prems(1) obtain r1 where r1: "xi_step env step st = Inr r1"
    by (auto split: sum.splits)
  note sh = xi_step_shrinks [OF Cons.prems(2-4) r1]
  show ?case
  proof (cases r1)
    case (Break st')
    then have "res = Break st'" using Cons.prems(1) r1 by simp
    then show ?thesis using sh Break by simp
  next
    case (Continue st')
    then have lp: "xi_loop env steps st' = Inr res" using Cons.prems(1) r1 by simp
    have "subseq (col_q (result_state res)) (col_q st')
      \<and> length (col_r (result_state res)) \<le> length (col_r st')"
      using Cons.IH [OF lp] sh Continue by simp
    then show ?thesis
      using sh Continue by (auto intro: subseq_order.trans)
  qed
qed

text \<open>
  Claim C6. Let \<open>(r1, pr1)\<close> be what the integrator returns in a pass through the loop body.
  The column after the pass holds exactly the entries at the indices with
  \<open>r1 \<le> r_max + 0.1\<close>, in their order: \<open>r\<close> is \<open>r1\<close> filtered, and \<open>pr\<close>, \<open>gamma\<close>, \<open>q\<close> are the
  entries of \<open>pr1\<close>, \<open>gamma\<close>, \<open>q\<close> at the same indices. Later passes never bring a particle
  back: the charges at any later point are a subsequence of the surviving ones. When no
  particle survives, the loop ends at once with the emptied column, and the grids and
  meshes are those from before the pass.
\<close>

theorem xi_step_particle_removal:
  assumes "length (col_pr st) = length (col_r st)" "length (col_gamma st) = length (col_r st)"
    "length (col_q st) = length (col_r st)"
    and "evolve_plasma (env_ct env) (col_r st) (col_pr st) (col_q st)
           (env_xi_max env - env_dxi env * real step) (env_dxi env)
           (env_laser_params env) (env_beam_source env) (env_s_d env) = Inr (r1, pr1)"
  shows "(\<forall>res. xi_step env step st = Inr res \<longrightarrow>
            col_r (result_state res) = filter (\<lambda>x. x \<le> env_r_max env + 0.1) r1
            \<and> col_r (result_state res) = nths r1 {i. r1 ! i \<le> env_r_max env + 0.1}
            \<and> col_pr (result_state res) = nths pr1 {i. r1 ! i \<le> env_r_max env + 0.1}
            \<and> col_gamma (result_state res) = nths (col_gamma st) {i. r1 ! i \<le> env_r_max env + 0.1}
            \<and> col_q (result_state res) = nths (col_q st) {i. r1 ! i \<le> env_r_max env + 0.1})
       \<and> (\<forall>st' res. xi_step env step st = Inr (Continue st') \<and> xi_loop env steps st' = Inr res \<longrightarrow>
            subseq (col_q (result_state res)) (col_q st')
            \<and> length (col_r (result_state res)) \<le> length (col_r st'))
       \<and> ((\<forall>x\<in>set r1. env_r_max env + 0.1 < x) \<longrightarrow>
            xi_loop env (step # steps) st
            = Inr (Break (st\<lparr>col_r := [], col_pr := [], col_gamma := [], col_q := []\<rparr>)))"
proof -
  let ?P = "\<lambda>i. r1 ! i \<le> env_r_max env + 0.1"
  have len: "length r1 = length (col_r st)" "length pr1 = length (col_r st)"
    using evolve_plasma_length [OF assms(4)] assms(1) by simp_all
  have a: "\<forall>res. xi_step env step st = Inr res \<longrightarrow>
            col_r (result_state res) = filter (\<lambda>x. x \<le> env_r_max env + 0.1) r1
            \<and> col_r (result_state res) = nths r1 {i. ?P i}
            \<and> col_pr (result_state res) = nths pr1 {i. ?P i}
            \<and> col_gamma (result_state res) = nths (col_gamma st) {i. ?P i}
            \<and> col_q (result_state res) = nths (col_q st) {i. ?P i}"
  proof (intro allI impI)
    fix res assume res: "xi_step env step st = Inr res"
    note col = xi_step_column [OF assms(4) res]
    have 1: "col_r (result_state res) = filter (\<lambda>x. x \<le> env_r_max env + 0.1) r1"
      using col(1) map_nth_filter_self [of r1 "\<lambda>x. x \<le> env_r_max env + 0.1"] by simp
    have 2: "col_r (result_state res) = nths r1 {i. ?P i}"
      using col(1) map_nth_filter_nths [of r1 ?P] by simp
    have 3: "col_pr (result_state res) = nths pr1 {i. ?P i}"
      using col(2) map_nth_filter_nths [of pr1 ?P] len by simp
    have 4: "col_gamma (result_state res) = nths (col_gamma st) {i. ?P i}"
      using col(3) map_nth_filter_nths [of "col_gamma st" ?P] len assms(2) by simp
    have 5: "col_q (result_state res) = nths (col_q st) {i. ?P i}"
      using col(4) map_nth_filter_nths [of "col_q st" ?P] len assms(3) by simp
    show "col_r (result_state res) = filter (\<lambda>x. x \<le> env_r_max env + 0.1) r1
            \<and> col_r (result_state res) = nths r1 {i. ?P i}
            \<and> col_pr (result_state res) = nths pr1 {i. ?P i}
            \<and> col_gamma (result_state res) = nths (col_gamma st) {i. ?P i}
            \<and> col_q (result_state res) = nths (col_q st) {i. ?P i}"
      using 1 2 3 4 5 by simp
  qed
  have b: "\<forall>st' res. xi_step env step st = Inr (Continue st') \<and> xi_loop env steps st' = Inr res \<longrightarrow>
            subseq (col_q (result_state res)) (col_q st')
            \<and> length (col_r (result_state res)) \<le> length (col_r st')"
  proof (intro allI impI)
    fix st' res
    assume h: "xi_step env step st = Inr (Continue st') \<and> xi_loop env steps st' = Inr res"
    have wf: "length (col_pr st') = length (col_r st')" "length (col_gamma st') = length (col_r st')"
      "length (col_q st') = length (col_r st')"
      using xi_step_shrinks [OF assms(1-3), of env step "Continue st'"] h by simp_all
    show "subseq (col_q (result_state res)) (col_q st')
            \<and> length (col_r (result_state res)) \<le> length (col_r st')"
      using xi_loop_shrinks [OF conjunct2 [OF h] wf] .
  qed
  have c: "(\<forall>x\<in>set r1. env_r_max env + 0.1 < x) \<longrightarrow>
            xi_loop env (step # steps) st
            = Inr (Break (st\<lparr>col_r := [], col_pr := [], col_gamma := [], col_q := []\<rparr>))"
    using xi_step_break [OF assms(4)] by simp
  show ?thesis using a b c by blast
qed



subsection \<open>The shape of the meshes\<close>

















subsection \<open>Early termination\<close>


subsection \<open>Two runs of the loop\<close>






lemma psi_at_particles_total:
  "r \<noteq> [] \<Longrightarrow> \<exists>out. calculate_psi_and_derivatives_at_particles r pr q = Inr out"
  by (auto simp: calculate_psi_and_derivatives_at_particles_def Let_def split: prod.splits)

lemma calculate_derivatives_zero_step:
  assumes "r \<noteq> []"
  shows "calculate_derivatives 0 r pr q b_theta_0 nabla_a a2
         = Inr (replicate (length r) 0, replicate (length r) 0)"
proof -
  obtain psi dr_psi dxi_psi where
    "calculate_psi_and_derivatives_at_particles r pr q = Inr (psi, dr_psi, dxi_psi)"
    using psi_at_particles_total [OF assms] by (metis prod_cases3)
  then show ?thesis
    by (simp add: calculate_derivatives_def Let_def map_replicate_const)
qed

lemma psi_probe_total:
  "r \<noteq> [] \<Longrightarrow> \<exists>out. calculate_psi_and_derivatives r_arr r pr q = Inr out"
  by (auto simp: calculate_psi_and_derivatives_def Let_def split: prod.splits)

lemma calculate_b_theta_total:
  "r \<noteq> [] \<Longrightarrow>
   \<exists>out. calculate_b_theta r_arr r pr q gamma psi dr_psi dxi_psi b_theta_0 nabla_a = Inr out"
  by (auto simp: calculate_b_theta_def split: prod.splits)

lemma calculate_fields_total:
  assumes "r \<noteq> []"
  shows "\<exists>out. calculate_fields ct r_arr xi r pr q laser_params (Some f) s_d = Inr out"
proof -
  obtain nabla_a a2 where ls: "laser_sources ct xi r laser_params s_d = (nabla_a, a2)"
    by (metis surj_pair)
  obtain psi dr_psi dxi_psi where p1:
    "calculate_psi_and_derivatives_at_particles r pr q = Inr (psi, dr_psi, dxi_psi)"
    using psi_at_particles_total [OF assms] by (metis prod_cases3)
  obtain psi_r dr_psi_r dxi_psi_r where p2:
    "calculate_psi_and_derivatives r_arr r pr q = Inr (psi_r, dr_psi_r, dxi_psi_r)"
    using psi_probe_total [OF assms] by (metis prod_cases3)
  obtain b where p3:
    "calculate_b_theta r_arr r pr q (calculate_fields_gamma pr a2 psi) psi dr_psi dxi_psi
       (f r xi) nabla_a = Inr b"
    using calculate_b_theta_total [OF assms] by blast
  show ?thesis
    by (simp add: calculate_fields_def ls p1 p2 p3 Let_def)
qed












lemma motion_removal_example:
  "motion_derivatives example_ct 0 x [1, 3] [5, 6] [1, 2] None (Some (\<lambda>rs x. map (\<lambda>_. 0) rs)) 1
   = Inr ([0, 0], [0, 0])"
  by (simp add: motion_derivatives_def invert_negative_def laser_sources_def
      calculate_derivatives_zero_step zeros_def Let_def)

lemma update_removal_example:
  "update_particles_rk4 [1, 3] [5, 6] [0, 0] [0, 0] [0, 0] [0, 0] [0, 0] [0, 0] [0, 0] [0, 0]
   = ([1, 3], [5, 6])"
  by (simp add: update_particles_rk4_def rk4_push_step_def invert_negative_def Let_def)

lemma evolve_removal_example:
  "evolve_plasma example_ct [1, 3] [5, 6] [1, 2] 0 0 None (Some (\<lambda>rs x. map (\<lambda>_. 0) rs)) 1
   = Inr ([1, 3], [5, 6])"
  by (simp add: evolve_plasma_def motion_removal_example update_removal_example)

theorem xi_step_particle_removal_witness:
  "\<exists>st'. xi_step removal_env 0 removal_st = Inr (Continue st')
     \<and> col_r st' = [1] \<and> col_pr st' = [5] \<and> col_gamma st' = [1] \<and> col_q st' = [1]"
proof -
  have ev: "evolve_plasma (env_ct removal_env) (col_r removal_st) (col_pr removal_st)
      (col_q removal_st) (env_xi_max removal_env - env_dxi removal_env * real (0::nat))
      (env_dxi removal_env) (env_laser_params removal_env) (env_beam_source removal_env)
      (env_s_d removal_env) = Inr ([1, 3], [5, 6])"
    by (simp add: evolve_removal_example)
  obtain psi_f dr_psi_f dxi_psi_f b_theta_bar_f b_theta_0_f where cf:
    "calculate_fields example_ct [1] 0 [1] [5] [1] None (Some (\<lambda>rs x. map (\<lambda>_. 0) rs)) 1
     = Inr (psi_f, dr_psi_f, dxi_psi_f, b_theta_bar_f, b_theta_0_f)"
    using calculate_fields_total [of "[1]" example_ct "[1]" 0 "[5]" "[1]" None "\<lambda>rs x. map (\<lambda>_. 0) rs" 1]
    by (metis list.distinct(1) prod_cases5)
  obtain st' where st': "xi_step removal_env 0 removal_st = Inr (Continue st')"
    by (simp add: xi_step_def evolve_removal_example cf Let_def)
  have len: "length (col_pr removal_st) = length (col_r removal_st)"
    "length (col_gamma removal_st) = length (col_r removal_st)"
    "length (col_q removal_st) = length (col_r removal_st)"
    by simp_all
  have "col_r st' = [1] \<and> col_pr st' = [5] \<and> col_gamma st' = [1] \<and> col_q st' = [1]"
    using xi_step_particle_removal [OF len ev, of "[]"] st'
    by (simp add: nths_Cons)
  then show ?thesis using st' by blast
qed

end
